theory Spec2Isabelle
  imports Complex_Main "HOL-Library.AList"
begin

section \<open>Values, records and the store\<close>

text \<open>
  The benchmark notebook (\<^verbatim>\<open>cuml_benchmarks.ipynb\<close>) keeps every result as a Python
  \<^verbatim>\<open>dict\<close>. A dict is an object: \<^verbatim>\<open>enrich_result\<close> writes into the dict it is given
  and hands the same object back, and \<^verbatim>\<open>benchmark_results\<close> holds references to those
  objects. The model therefore has a store of dicts, indexed by address, and lists of
  addresses. A dict is an association list: Python dicts keep insertion order, an
  assignment \<^verbatim>\<open>d[k] = v\<close> overwrites in place when \<^verbatim>\<open>k\<close> is present and appends
  otherwise, which is what \<^const>\<open>AList.update\<close> does.
\<close>

datatype pyval = PStr string | PInt int | PFloat real

type_synonym pydict = "(string \<times> pyval) list"

type_synonym addr = nat

type_synonym store = "addr \<Rightarrow> pydict"

text \<open>
  A Python float (float64): a finite number (every double is a real), an infinity or
  \<^verbatim>\<open>nan\<close>.
\<close>

datatype pyfloat = Finite real | PosInf | NegInf | NaN

text \<open>Exceptions. \<open>Raised\<close> is whatever an external library call raises, with its message.\<close>

datatype pyerror = NameError | AttributeError | KeyError | ValueError | TypeError | Raised string

section \<open>The notebook's constants\<close>

definition N_REPS :: nat where
  "N_REPS = 3"

definition DATA_NEIGHBORHOODS :: string where
  "DATA_NEIGHBORHOODS = ''blobs''"

definition DATA_CLASSIFICATION :: string where
  "DATA_CLASSIFICATION = ''classification''"

definition DATA_REGRESSION :: string where
  "DATA_REGRESSION = ''regression''"

definition INPUT_TYPE :: string where
  "INPUT_TYPE = ''numpy''"

definition SMALL_ROW_SIZES :: "int list" where
  "SMALL_ROW_SIZES = map (\<lambda>x. 2 ^ x) [14 ..< 17]"

definition LARGE_ROW_SIZES :: "int list" where
  "LARGE_ROW_SIZES = map (\<lambda>x. 2 ^ x) [18, 20, 22]"

definition SKINNY_FEATURES :: "int list" where
  "SKINNY_FEATURES = [32, 256]"

definition WIDE_FEATURES :: "int list" where
  "WIDE_FEATURES = [1000, 10000]"

definition VERBOSE :: bool where
  "VERBOSE = True"

definition RUN_CPU :: bool where
  "RUN_CPU = True"

section \<open>The runner object\<close>

text \<open>
  \<^verbatim>\<open>SpeedupComparisonRunner\<close> comes from the \<^verbatim>\<open>cuml.benchmark\<close> package; the notebook
  only constructs it and calls its \<^verbatim>\<open>run\<close> method. The fields are the constructor's
  keyword arguments. The method is a field too, with no equation of its own: it takes
  the resolved algorithm, \<^verbatim>\<open>verbose\<close>, \<^verbatim>\<open>run_cpu\<close>, the forwarded \<^verbatim>\<open>**kwargs\<close> and the
  store, and either raises or returns the list of result dicts (as addresses); either way
  it may have written to the store. \<open>'p\<close> is the type of what \<^verbatim>\<open>algorithm_by_name\<close>
  returns.
\<close>

record 'p runner =
  bench_rows :: "int list"
  bench_dims :: "int list"
  dataset_name :: string
  input_type :: string
  n_reps :: nat
  run :: "'p \<Rightarrow> bool \<Rightarrow> bool \<Rightarrow> pydict \<Rightarrow> store \<Rightarrow> store \<times> (pyerror + addr list)"

section \<open>Data frames\<close>

text \<open>
  The notebook's post-processing is written with pandas. What the notebook relies on is
  modelled here, after the library's documented behaviour: a frame has an ordered list
  of column names and a list of rows, each row an index label and the cells it holds.
  A cell is \<open>None\<close> where pandas shows \<^verbatim>\<open>NaN\<close> (the record had no such key).
\<close>

type_synonym cell = "pyval option"

record dataframe =
  columns :: "string list"
  rows :: "(nat \<times> pydict) list"

text \<open>The distinct elements of a list, in the order of their first occurrence.\<close>

definition first_seen :: "'a list \<Rightarrow> 'a list" where
  "first_seen xs = rev (remdups (rev xs))"

text \<open>
  \<^verbatim>\<open>pd.DataFrame(list_of_dicts)\<close>: one row per dict, labelled \<open>0, 1, ...\<close>; the
  columns are the keys of the dicts, in the order in which they first appear.
\<close>

definition DataFrame :: "pydict list \<Rightarrow> dataframe" where
  "DataFrame recs =
     \<lparr>columns = first_seen (concat (map (map fst) recs)), rows = enumerate 0 recs\<rparr>"

text \<open>
  Index labels, column labels and group keys. pandas compares them by value: the int
  16384 and the float 16384.0 are one label, as \<^verbatim>\<open>16384 == 16384.0\<close> in Python (a column
  that mixes ints and floats is stored as floats, which is exact for the ints below
  \<open>2^53\<close>; row and feature counts are far below). A label is therefore a number, a
  string, or \<^verbatim>\<open>NaN\<close> for a missing cell. The order pandas puts them in: \<^verbatim>\<open>NaN\<close> first,
  then numbers by value, then strings by code point (in the notebook's frames a row
  count or a feature count is an int and an algorithm name a string).
\<close>

datatype label = LNaN | LNum real | LStr string

fun label_of :: "cell \<Rightarrow> label" where
  "label_of None = LNaN"
| "label_of (Some (PInt n)) = LNum (real_of_int n)"
| "label_of (Some (PFloat x)) = LNum x"
| "label_of (Some (PStr s)) = LStr s"

fun str_le :: "string \<Rightarrow> string \<Rightarrow> bool" where
  "str_le [] t = True"
| "str_le (x # s) [] = False"
| "str_le (x # s) (y # t) = ((of_char x :: nat) < of_char y \<or> (x = y \<and> str_le s t))"

fun is_str :: "pyval \<Rightarrow> bool" where
  "is_str (PStr s) = True"
| "is_str v = False"

fun label_le :: "label \<Rightarrow> label \<Rightarrow> bool" where
  "label_le LNaN b = True"
| "label_le (LNum x) LNaN = False"
| "label_le (LNum x) (LNum y) = (x \<le> y)"
| "label_le (LNum x) (LStr t) = True"
| "label_le (LStr s) LNaN = False"
| "label_le (LStr s) (LNum y) = False"
| "label_le (LStr s) (LStr t) = str_le s t"

fun key_le :: "label list \<Rightarrow> label list \<Rightarrow> bool" where
  "key_le [] t = True"
| "key_le (x # s) [] = False"
| "key_le (x # s) (y # t) = (if x = y then key_le s t else label_le x y)"

fun insort_by :: "('a \<Rightarrow> 'a \<Rightarrow> bool) \<Rightarrow> 'a \<Rightarrow> 'a list \<Rightarrow> 'a list" where
  "insort_by le x [] = [x]"
| "insort_by le x (y # ys) = (if le x y then x # y # ys else y # insort_by le x ys)"

definition sort_by :: "('a \<Rightarrow> 'a \<Rightarrow> bool) \<Rightarrow> 'a list \<Rightarrow> 'a list" where
  "sort_by le xs = foldr (insort_by le) xs []"

text \<open>
  \<^verbatim>\<open>df.loc[df.<c> == v]\<close>: attribute access to a column that does not exist raises
  \<^verbatim>\<open>AttributeError\<close>; otherwise the rows whose cell equals \<open>v\<close> (by value; \<^verbatim>\<open>NaN\<close>
  equals nothing) are kept, with their labels.
\<close>

definition loc_eq :: "string \<Rightarrow> pyval \<Rightarrow> dataframe \<Rightarrow> pyerror + dataframe" where
  "loc_eq c v d =
     (if c \<notin> set (columns d) then Inl AttributeError
      else Inr (d\<lparr>rows := filter (\<lambda>(_, r). label_of (map_of r c) = label_of (Some v)) (rows d)\<rparr>))"

text \<open>
  \<^verbatim>\<open>df.pivot(index=i, columns=c, values=v)\<close>. A name that is not a column raises
  \<^verbatim>\<open>KeyError\<close>. Two rows with the same (index, column) pair of labels raise
  \<^verbatim>\<open>ValueError\<close> ("Index contains duplicate entries, cannot reshape"). Otherwise the
  table has the sorted distinct index labels, the sorted distinct column labels, and in
  each cell the value of the one row with that pair, or \<^verbatim>\<open>NaN\<close> when there is none.
\<close>

record pivot_table =
  p_index :: "label list"
  p_columns :: "label list"
  p_values :: "cell list list"

definition pivot_keys :: "string \<Rightarrow> string \<Rightarrow> (nat \<times> pydict) list \<Rightarrow> (label \<times> label) list" where
  "pivot_keys i c rs = map (\<lambda>(_, r). (label_of (map_of r i), label_of (map_of r c))) rs"

definition lookup_cell ::
  "string \<Rightarrow> string \<Rightarrow> string \<Rightarrow> (nat \<times> pydict) list \<Rightarrow> label \<Rightarrow> label \<Rightarrow> cell" where
  "lookup_cell i c v rs ri ci =
     (case find (\<lambda>(_, r). label_of (map_of r i) = ri \<and> label_of (map_of r c) = ci) rs of
        None \<Rightarrow> None
      | Some (_, r) \<Rightarrow> map_of r v)"

definition pivot :: "string \<Rightarrow> string \<Rightarrow> string \<Rightarrow> dataframe \<Rightarrow> pyerror + pivot_table" where
  "pivot i c v d =
     (if i \<notin> set (columns d) \<or> c \<notin> set (columns d) \<or> v \<notin> set (columns d) then Inl KeyError
      else if \<not> distinct (pivot_keys i c (rows d)) then Inl ValueError
      else
        (let idx = sort_by label_le (remdups (map fst (pivot_keys i c (rows d))));
             cols = sort_by label_le (remdups (map snd (pivot_keys i c (rows d))))
         in Inr \<lparr>p_index = idx, p_columns = cols,
                 p_values = map (\<lambda>ri. map (\<lambda>ci. lookup_cell i c v (rows d) ri ci) cols) idx\<rparr>))"

text \<open>
  \<^verbatim>\<open>df[cs]\<close> with a list of names: \<^verbatim>\<open>KeyError\<close> when one is not a column, else the
  frame cut down to those columns.
\<close>

definition getitem_columns :: "string list \<Rightarrow> dataframe \<Rightarrow> pyerror + dataframe" where
  "getitem_columns cs d =
     (if \<not> set cs \<subseteq> set (columns d) then Inl KeyError
      else Inr \<lparr>columns = cs, rows = map (\<lambda>(n, r). (n, AList.restrict (set cs) r)) (rows d)\<rparr>)"

text \<open>
  \<^verbatim>\<open>df.groupby(ks).mean()\<close>. A key that is not a column raises \<^verbatim>\<open>KeyError\<close>. Rows
  with \<^verbatim>\<open>NaN\<close> in a key are left out. A group is the rows that agree on the labels of
  all keys; the result has one row per group, in the sorted order of the key tuples, and
  one column per remaining column, holding the mean of the group's cells that are not
  \<^verbatim>\<open>NaN\<close>. A string among the cells to average raises \<^verbatim>\<open>TypeError\<close> (pandas 2;
  earlier versions leave such a column out of the result).

  The mean itself is pandas' float64 arithmetic (rounding, overflow to infinity,
  \<^verbatim>\<open>NaN\<close> for no cell at all): it is the parameter \<open>fmean\<close>, with no equation here. It
  receives the group's cells that are not \<^verbatim>\<open>NaN\<close>, in row order.
\<close>

record grouped =
  g_keys :: "string list"
  g_columns :: "string list"
  g_index :: "label list list"
  g_values :: "pyfloat list list"

definition row_key :: "string list \<Rightarrow> pydict \<Rightarrow> label list option" where
  "row_key ks r =
     (if \<exists>k \<in> set ks. map_of r k = None then None
      else Some (map (\<lambda>k. label_of (map_of r k)) ks))"

definition group_keys :: "string list \<Rightarrow> (nat \<times> pydict) list \<Rightarrow> label list list" where
  "group_keys ks rs = List.map_filter (\<lambda>(_, r). row_key ks r) rs"

definition group_cells ::
  "string list \<Rightarrow> string \<Rightarrow> (nat \<times> pydict) list \<Rightarrow> label list \<Rightarrow> pyval list" where
  "group_cells ks c rs k =
     List.map_filter (\<lambda>(_, r). map_of r c) (filter (\<lambda>(_, r). row_key ks r = Some k) rs)"

definition groupby_mean ::
  "(pyval list \<Rightarrow> pyfloat) \<Rightarrow> string list \<Rightarrow> dataframe \<Rightarrow> pyerror + grouped" where
  "groupby_mean fmean ks d =
     (if \<not> set ks \<subseteq> set (columns d) then Inl KeyError
      else
        (let vcols = filter (\<lambda>c. c \<notin> set ks) (columns d);
             idx = sort_by key_le (remdups (group_keys ks (rows d)))
         in if \<exists>k \<in> set idx. \<exists>c \<in> set vcols. \<exists>x \<in> set (group_cells ks c (rows d) k). is_str x
            then Inl TypeError
            else Inr \<lparr>g_keys = ks, g_columns = vcols, g_index = idx,
                      g_values = map (\<lambda>k. map (\<lambda>c. fmean (group_cells ks c (rows d) k)) vcols) idx\<rparr>))"

text \<open>
  \<^verbatim>\<open>df.to_csv(path)\<close>: a header line with an empty name for the index followed by the
  column names, then one line per row: the row's label and its cells in column order.
  A line is the list of its cells, each a value; how a number is printed is not
  modelled (pandas stores an int column that has a missing cell as floats, and prints
  16384 as 16384.0 there).
\<close>

record csv =
  csv_header :: "string list"
  csv_body :: "cell list list"

definition to_csv :: "dataframe \<Rightarrow> csv" where
  "to_csv d =
     \<lparr>csv_header = '''' # columns d,
      csv_body = map (\<lambda>(n, r). Some (PInt (int n)) # map (map_of r) (columns d)) (rows d)\<rparr>"

text \<open>The cell of line \<open>n\<close> under the column named \<open>k\<close>.\<close>

definition csv_cell :: "csv \<Rightarrow> nat \<Rightarrow> string \<Rightarrow> cell option" where
  "csv_cell f n k = map_of (zip (csv_header f) (csv_body f ! n)) k"

section \<open>The notebook's global state\<close>

text \<open>
  The globals the cells read and write: the dict objects, \<^verbatim>\<open>benchmark_results\<close>,
  \<^verbatim>\<open>df\<close> (unbound until the conversion cell has run), and the two sinks: the charts
  drawn and the files written.
\<close>

datatype chart = BarPivot string pivot_table | BarGrouped grouped

record notebook =
  store :: store
  benchmark_results :: "addr list"
  df :: "dataframe option"
  charts :: "chart list"
  files :: "string \<Rightarrow> csv option"

text \<open>The cell \<^verbatim>\<open>benchmark_results = []\<close>.\<close>

definition init_results :: "notebook \<Rightarrow> notebook" where
  "init_results nb = nb\<lparr>benchmark_results := []\<rparr>"

section \<open>enrich_result and execute_benchmark\<close>

text \<open>
  \<^verbatim>\<open>
  def enrich_result(algorithm, runner, result):
      result["algo"] = algorithm
      result["dataset_name"] = runner.dataset_name
      result["input_type"] = runner.input_type
      return result
  \<close>
  Three assignments into the dict at address \<open>result\<close>, one after the other; the value
  returned is the address it was given.
\<close>

definition setitem :: "addr \<Rightarrow> string \<Rightarrow> pyval \<Rightarrow> store \<Rightarrow> store" where
  "setitem a k v \<sigma> = \<sigma>(a := AList.update k v (\<sigma> a))"

definition enrich_result ::
  "string \<Rightarrow> 'p runner \<Rightarrow> addr \<Rightarrow> store \<Rightarrow> addr \<times> store" where
  "enrich_result algorithm runner result \<sigma> =
     (let \<sigma>1 = setitem result ''algo'' (PStr algorithm) \<sigma>;
          \<sigma>2 = setitem result ''dataset_name'' (PStr (dataset_name runner)) \<sigma>1;
          \<sigma>3 = setitem result ''input_type'' (PStr (input_type runner)) \<sigma>2
      in (result, \<sigma>3))"

text \<open>
  The list comprehension \<^verbatim>\<open>[enrich_result(algorithm, runner, result) for result in results]\<close>:
  a left-to-right loop that threads the store.
\<close>

fun enrich_all ::
  "string \<Rightarrow> 'p runner \<Rightarrow> addr list \<Rightarrow> store \<Rightarrow> addr list \<times> store" where
  "enrich_all algorithm runner [] \<sigma> = ([], \<sigma>)"
| "enrich_all algorithm runner (result # results) \<sigma> =
     (let (r, \<sigma>1) = enrich_result algorithm runner result \<sigma>;
          (rs, \<sigma>2) = enrich_all algorithm runner results \<sigma>1
      in (r # rs, \<sigma>2))"

text \<open>
  \<^verbatim>\<open>
  def execute_benchmark(algorithm, runner, verbose=VERBOSE, run_cpu=RUN_CPU, **kwargs):
      results = runner.run(algorithm_by_name(algorithm), verbose=verbose, run_cpu=run_cpu, **kwargs)
      results = [enrich_result(algorithm, runner, result) for result in results]
      benchmark_results.extend(results)
  \<close>
  \<^verbatim>\<open>algorithm_by_name\<close> is imported from \<^verbatim>\<open>cuml.benchmark.algorithms\<close>; it is the
  parameter \<open>abn\<close>. There is no \<^verbatim>\<open>try\<close>: an exception of either call ends the function
  at that point. The result pairs the notebook state afterwards with the outcome
  (\<open>Inl\<close> the exception that reaches the caller, \<open>Inr ()\<close> for a normal return).
\<close>

definition execute_benchmark ::
  "(string \<Rightarrow> pyerror + 'p) \<Rightarrow> string \<Rightarrow> 'p runner \<Rightarrow> bool \<Rightarrow> bool \<Rightarrow> pydict \<Rightarrow>
   notebook \<Rightarrow> notebook \<times> (pyerror + unit)" where
  "execute_benchmark abn algorithm runner verbose run_cpu kwargs nb =
     (case abn algorithm of
        Inl e \<Rightarrow> (nb, Inl e)
      | Inr pair \<Rightarrow>
          (case run runner pair verbose run_cpu kwargs (store nb) of
             (\<sigma>1, Inl e) \<Rightarrow> (nb\<lparr>store := \<sigma>1\<rparr>, Inl e)
           | (\<sigma>1, Inr results) \<Rightarrow>
               (let (results', \<sigma>2) = enrich_all algorithm runner results \<sigma>1
                in (nb\<lparr>store := \<sigma>2, benchmark_results := benchmark_results nb @ results'\<rparr>,
                    Inr ()))))"

section \<open>Charting and storing results\<close>

text \<open>The cell \<^verbatim>\<open>df = pd.DataFrame(benchmark_results)\<close>.\<close>

definition cell_convert :: "notebook \<Rightarrow> notebook" where
  "cell_convert nb = nb\<lparr>df := Some (DataFrame (map (store nb) (benchmark_results nb)))\<rparr>"

text \<open>
  \<^verbatim>\<open>
  def chart_single_algo_speedup(df, algorithm):
      df = df.loc[df.algo == algorithm]
      df = df.pivot(index="n_samples", columns="n_features", values="speedup")
      axes = df.plot.bar(title="%s Speedup" % algorithm)
  \<close>
  \<^verbatim>\<open>df.plot.bar\<close> is the plotting sink (pandas on matplotlib). It is the parameter
  \<open>plot_bar\<close>, with no equation here: given the chart, it draws it or raises, and what
  it raises leaves the function as it is. The function returns nothing; the result here
  is the chart that was drawn.
\<close>

definition chart_single_algo_speedup ::
  "(chart \<Rightarrow> pyerror + unit) \<Rightarrow> dataframe \<Rightarrow> string \<Rightarrow> pyerror + chart" where
  "chart_single_algo_speedup plot_bar d algorithm =
     (case loc_eq ''algo'' (PStr algorithm) d of
        Inl e \<Rightarrow> Inl e
      | Inr d1 \<Rightarrow>
          (case pivot ''n_samples'' ''n_features'' ''speedup'' d1 of
             Inl e \<Rightarrow> Inl e
           | Inr t \<Rightarrow>
               (case plot_bar (BarPivot (algorithm @ '' Speedup'') t) of
                  Inl e \<Rightarrow> Inl e
                | Inr u \<Rightarrow> Inr (BarPivot (algorithm @ '' Speedup'') t))))"

text \<open>
  \<^verbatim>\<open>
  def chart_all_algo_speedup(df):
      df = df[["algo", "n_samples", "speedup"]].groupby(["algo", "n_samples"]).mean()
      df.plot.bar()
  \<close>
\<close>

definition chart_all_algo_speedup ::
  "(pyval list \<Rightarrow> pyfloat) \<Rightarrow> (chart \<Rightarrow> pyerror + unit) \<Rightarrow> dataframe \<Rightarrow> pyerror + chart" where
  "chart_all_algo_speedup fmean plot_bar d =
     (case getitem_columns [''algo'', ''n_samples'', ''speedup''] d of
        Inl e \<Rightarrow> Inl e
      | Inr d1 \<Rightarrow>
          (case groupby_mean fmean [''algo'', ''n_samples''] d1 of
             Inl e \<Rightarrow> Inl e
           | Inr g \<Rightarrow>
               (case plot_bar (BarGrouped g) of
                  Inl e \<Rightarrow> Inl e
                | Inr u \<Rightarrow> Inr (BarGrouped g))))"

text \<open>
  The cells \<^verbatim>\<open>chart_single_algo_speedup(df, "LinearRegression")\<close>,
  \<^verbatim>\<open>chart_all_algo_speedup(df)\<close> and \<^verbatim>\<open>df.to_csv("benchmark_results.csv")\<close>. Each
  reads the global \<^verbatim>\<open>df\<close>, which raises \<^verbatim>\<open>NameError\<close> while it is unbound.
\<close>

definition cell_chart_single ::
  "(chart \<Rightarrow> pyerror + unit) \<Rightarrow> string \<Rightarrow> notebook \<Rightarrow> notebook \<times> (pyerror + unit)" where
  "cell_chart_single plot_bar algorithm nb =
     (case df nb of
        None \<Rightarrow> (nb, Inl NameError)
      | Some d \<Rightarrow>
          (case chart_single_algo_speedup plot_bar d algorithm of
             Inl e \<Rightarrow> (nb, Inl e)
           | Inr ch \<Rightarrow> (nb\<lparr>charts := charts nb @ [ch]\<rparr>, Inr ())))"

definition cell_chart_all ::
  "(pyval list \<Rightarrow> pyfloat) \<Rightarrow> (chart \<Rightarrow> pyerror + unit) \<Rightarrow> notebook \<Rightarrow>
   notebook \<times> (pyerror + unit)" where
  "cell_chart_all fmean plot_bar nb =
     (case df nb of
        None \<Rightarrow> (nb, Inl NameError)
      | Some d \<Rightarrow>
          (case chart_all_algo_speedup fmean plot_bar d of
             Inl e \<Rightarrow> (nb, Inl e)
           | Inr ch \<Rightarrow> (nb\<lparr>charts := charts nb @ [ch]\<rparr>, Inr ())))"

definition cell_to_csv :: "notebook \<Rightarrow> notebook \<times> (pyerror + unit)" where
  "cell_to_csv nb =
     (case df nb of
        None \<Rightarrow> (nb, Inl NameError)
      | Some d \<Rightarrow>
          (nb\<lparr>files := (files nb)(''benchmark_results.csv'' := Some (to_csv d))\<rparr>, Inr ()))"

section \<open>The k-means demo's comparison\<close>

text \<open>
  \<^verbatim>\<open>kmeans_mnmg_demo.ipynb\<close>:
  \<^verbatim>\<open>
  score = adjusted_rand_score(labels_sk, labels_cuml)
  passed = score == 1.0
  print('compare kmeans: cuml vs sklearn labels_ are ' + ('equal' if passed else 'NOT equal'))
  \<close>
  The score is a Python float: a finite number (every double is a real), an infinity
  or \<^verbatim>\<open>nan\<close>. \<^verbatim>\<open>==\<close> and \<^verbatim>\<open><\<close> on floats are exact; \<^verbatim>\<open>nan\<close> equals nothing and is
  below nothing.
\<close>

fun float_eq :: "pyfloat \<Rightarrow> pyfloat \<Rightarrow> bool" where
  "float_eq (Finite x) (Finite y) = (x = y)"
| "float_eq PosInf PosInf = True"
| "float_eq NegInf NegInf = True"
| "float_eq a b = False"

fun float_lt :: "pyfloat \<Rightarrow> pyfloat \<Rightarrow> bool" where
  "float_lt (Finite x) (Finite y) = (x < y)"
| "float_lt NegInf (Finite y) = True"
| "float_lt NegInf PosInf = True"
| "float_lt (Finite x) PosInf = True"
| "float_lt a b = False"

definition passed :: "pyfloat \<Rightarrow> bool" where
  "passed score = float_eq score (Finite 1.0)"

definition compare_message :: "pyfloat \<Rightarrow> string" where
  "compare_message score =
     ''compare kmeans: cuml vs sklearn labels_ are '' @
       (if passed score then ''equal'' else ''NOT equal'')"

section \<open>Notions used in the statements\<close>

text \<open>The three keys \<^verbatim>\<open>enrich_result\<close> writes.\<close>

definition tag_keys :: "string set" where
  "tag_keys = {''algo'', ''dataset_name'', ''input_type''}"

text \<open>A dict carries the tags of algorithm \<open>a\<close> and runner \<open>r\<close>.\<close>

definition has_tags :: "string \<Rightarrow> 'p runner \<Rightarrow> pydict \<Rightarrow> bool" where
  "has_tags a r d \<longleftrightarrow>
     map_of d ''algo'' = Some (PStr a) \<and>
     map_of d ''dataset_name'' = Some (PStr (dataset_name r)) \<and>
     map_of d ''input_type'' = Some (PStr (input_type r))"


text \<open>
  The records of algorithm \<open>a\<close> in a frame, the (row count, feature count) pair of
  each, as labels, and what makes a list of such pairs a complete sweep: every row count
  that occurs is paired with every feature count that occurs.
\<close>

definition algo_rows :: "string \<Rightarrow> dataframe \<Rightarrow> (nat \<times> pydict) list" where
  "algo_rows a d = filter (\<lambda>(m, r). map_of r ''algo'' = Some (PStr a)) (rows d)"

definition sweep_points :: "string \<Rightarrow> dataframe \<Rightarrow> (label \<times> label) list" where
  "sweep_points a d =
     map (\<lambda>(m, r). (label_of (map_of r ''n_samples''), label_of (map_of r ''n_features'')))
       (algo_rows a d)"

definition complete_sweep :: "(label \<times> label) list \<Rightarrow> bool" where
  "complete_sweep ps \<longleftrightarrow> (\<forall>i \<in> set (map fst ps). \<forall>c \<in> set (map snd ps). (i, c) \<in> set ps)"

section \<open>A concrete session\<close>

text \<open>
  One record accumulated by an earlier benchmark, and a runner whose \<^verbatim>\<open>run\<close> makes two
  new records (16384 rows; 32 and 256 features). A second runner raises instead.
\<close>

definition earlier_record :: pydict where
  "earlier_record =
     [(''cuml_time'', PFloat 0.5), (''cpu_time'', PFloat 1), (''speedup'', PFloat 2),
      (''n_samples'', PInt 16384), (''n_features'', PInt 32),
      (''algo'', PStr ''LinearRegression''), (''dataset_name'', PStr ''regression''),
      (''input_type'', PStr ''numpy'')]"

definition record_32 :: pydict where
  "record_32 =
     [(''cuml_time'', PFloat 1), (''cpu_time'', PFloat 4), (''speedup'', PFloat 4),
      (''n_samples'', PInt 16384), (''n_features'', PInt 32)]"

definition record_256 :: pydict where
  "record_256 =
     [(''cuml_time'', PFloat 1), (''cpu_time'', PFloat 2), (''speedup'', PFloat 2),
      (''n_samples'', PInt 16384), (''n_features'', PInt 256)]"

definition example_abn :: "string \<Rightarrow> pyerror + unit" where
  "example_abn name = Inr ()"

definition example_run ::
  "unit \<Rightarrow> bool \<Rightarrow> bool \<Rightarrow> pydict \<Rightarrow> store \<Rightarrow> store \<times> (pyerror + addr list)" where
  "example_run p verbose run_cpu kwargs \<sigma> = (\<sigma>(10 := record_32, 11 := record_256), Inr [10, 11])"

definition failing_run ::
  "unit \<Rightarrow> bool \<Rightarrow> bool \<Rightarrow> pydict \<Rightarrow> store \<Rightarrow> store \<times> (pyerror + addr list)" where
  "failing_run p verbose run_cpu kwargs \<sigma> = (\<sigma>, Inl (Raised ''out of memory''))"

definition example_runner :: "unit runner" where
  "example_runner =
     \<lparr>bench_rows = [16384], bench_dims = SKINNY_FEATURES, dataset_name = DATA_NEIGHBORHOODS,
      input_type = INPUT_TYPE, n_reps = 1, run = example_run\<rparr>"

definition failing_runner :: "unit runner" where
  "failing_runner = example_runner\<lparr>run := failing_run\<rparr>"

definition example_notebook :: notebook where
  "example_notebook =
     \<lparr>store = (\<lambda>x. [])(0 := earlier_record), benchmark_results = [0], df = None,
      charts = [], files = (\<lambda>name. None)\<rparr>"

text \<open>
  A runner that hands back the dict that is already accumulated (a runner that keeps
  and returns its earlier results would do so).
\<close>

definition aliasing_run ::
  "unit \<Rightarrow> bool \<Rightarrow> bool \<Rightarrow> pydict \<Rightarrow> store \<Rightarrow> store \<times> (pyerror + addr list)" where
  "aliasing_run p verbose run_cpu kwargs \<sigma> = (\<sigma>, Inr [0])"

definition aliasing_runner :: "unit runner" where
  "aliasing_runner = example_runner\<lparr>run := aliasing_run\<rparr>"

text \<open>
  For the concrete session: a plotting sink and a mean. The sink draws a table that has
  a row and whose cells are numbers. A table with no column, or with a string among its
  cells, it refuses with \<^verbatim>\<open>TypeError\<close> (pandas: "no numeric data to plot"), and a
  table with columns but no row with \<^verbatim>\<open>IndexError\<close> (there is no bar to place). The
  mean is that of the group's numbers; on the session's speedups (4, 2 and 2) the sums
  and quotients are exact in float64, so it is the mean pandas computes there.
\<close>

fun string_cell :: "cell \<Rightarrow> bool" where
  "string_cell (Some (PStr s)) = True"
| "string_cell c = False"

fun example_plot :: "chart \<Rightarrow> pyerror + unit" where
  "example_plot (BarPivot title t) =
     (if p_columns t = [] \<or> list_ex (list_ex string_cell) (p_values t) then Inl TypeError
      else if p_index t = [] then Inl (Raised ''IndexError'')
      else Inr ())"
| "example_plot (BarGrouped g) =
     (if g_columns g = [] then Inl TypeError
      else if g_index g = [] then Inl (Raised ''IndexError'')
      else Inr ())"

fun num :: "pyval \<Rightarrow> real" where
  "num (PInt n) = real_of_int n"
| "num (PFloat x) = x"
| "num (PStr s) = 0"

definition example_mean :: "pyval list \<Rightarrow> pyfloat" where
  "example_mean xs = (if xs = [] then NaN else Finite (sum_list (map num xs) / real (length xs)))"

text \<open>
  The session after \<^verbatim>\<open>execute_benchmark("KMeans", runner)\<close> on the example, the tags
  its two new records get, and the data frame of the three records.
\<close>

definition example_session :: notebook where
  "example_session =
     fst (execute_benchmark example_abn ''KMeans'' example_runner VERBOSE RUN_CPU [] example_notebook)"

definition kmeans_tags :: pydict where
  "kmeans_tags =
     [(''algo'', PStr ''KMeans''), (''dataset_name'', PStr ''blobs''), (''input_type'', PStr ''numpy'')]"

definition session_frame :: dataframe where
  "session_frame = DataFrame (map (store example_session) (benchmark_results example_session))"

text \<open>
  Two records of one algorithm at the same sweep point (16384 rows, 32 features), as
  they accumulate when a sweep yields one record per repetition, or when the same
  benchmark is executed twice in a session.
\<close>

definition second_repetition :: pydict where
  "second_repetition =
     [(''cuml_time'', PFloat 2), (''cpu_time'', PFloat 4), (''speedup'', PFloat 2),
      (''n_samples'', PInt 16384), (''n_features'', PInt 32)]"

definition repeated_frame :: dataframe where
  "repeated_frame = DataFrame [record_32 @ kmeans_tags, second_repetition @ kmeans_tags]"

text \<open>
  Two records of one algorithm whose row counts are the int 16384 and the float 16384.0:
  one sweep point, by value.
\<close>

definition float_count_record :: pydict where
  "float_count_record =
     [(''cuml_time'', PFloat 1), (''cpu_time'', PFloat 2), (''speedup'', PFloat 2),
      (''n_samples'', PFloat 16384), (''n_features'', PInt 32)]"

definition by_value_frame :: dataframe where
  "by_value_frame = DataFrame [record_32 @ kmeans_tags, float_count_record @ kmeans_tags]"

section \<open>Facts about enrich_result\<close>

lemma enrich_result_fst: "fst (enrich_result a r x \<sigma>) = x"
  by (simp add: enrich_result_def Let_def)

lemma enrich_result_same:
  "snd (enrich_result a r x \<sigma>) x =
     AList.update ''input_type'' (PStr (input_type r))
       (AList.update ''dataset_name'' (PStr (dataset_name r))
         (AList.update ''algo'' (PStr a) (\<sigma> x)))"
  unfolding enrich_result_def Let_def setitem_def by simp

lemma enrich_result_other: "y \<noteq> x \<Longrightarrow> snd (enrich_result a r x \<sigma>) y = \<sigma> y"
  unfolding enrich_result_def Let_def setitem_def by simp

lemma filter_update_other:
  "\<not> P k \<Longrightarrow> filter (\<lambda>(k', v'). P k') (AList.update k v al) = filter (\<lambda>(k', v'). P k') al"
  by (induction al) auto

lemma enrich_result_rest:
  "filter (\<lambda>(k, v). k \<notin> tag_keys) (snd (enrich_result a r x \<sigma>) y) =
   filter (\<lambda>(k, v). k \<notin> tag_keys) (\<sigma> y)"
proof (cases "y = x")
  case True
  have upd: "filter (\<lambda>(k, v). k \<notin> tag_keys) (AList.update k0 v0 al) =
      filter (\<lambda>(k, v). k \<notin> tag_keys) al" if "k0 \<in> tag_keys" for k0 v0 and al :: pydict
    using that filter_update_other [of "\<lambda>k. k \<notin> tag_keys" k0 v0 al] by simp
  have "''algo'' \<in> tag_keys" "''dataset_name'' \<in> tag_keys" "''input_type'' \<in> tag_keys"
    by (simp_all add: tag_keys_def)
  then show ?thesis
    unfolding True enrich_result_same by (simp only: upd)
next
  case False
  then show ?thesis by (simp add: enrich_result_other)
qed

lemma enrich_result_has_tags: "has_tags a r (snd (enrich_result a r x \<sigma>) x)"
  unfolding enrich_result_same has_tags_def update_conv' by simp

lemma enrich_all_fst: "fst (enrich_all a r xs \<sigma>) = xs"
  by (induction xs arbitrary: \<sigma>) (simp_all add: split_beta enrich_result_def Let_def)

lemma enrich_all_other: "y \<notin> set xs \<Longrightarrow> snd (enrich_all a r xs \<sigma>) y = \<sigma> y"
proof (induction xs arbitrary: \<sigma>)
  case Nil
  show ?case by simp
next
  case (Cons x xs)
  then have "y \<noteq> x" and "y \<notin> set xs" by simp_all
  have "snd (enrich_all a r (x # xs) \<sigma>) y = snd (enrich_all a r xs (snd (enrich_result a r x \<sigma>))) y"
    by (simp add: split_beta)
  also have "\<dots> = snd (enrich_result a r x \<sigma>) y"
    using Cons.IH \<open>y \<notin> set xs\<close> by blast
  also have "\<dots> = \<sigma> y"
    using \<open>y \<noteq> x\<close> by (rule enrich_result_other)
  finally show ?case .
qed

lemma enrich_all_rest:
  "filter (\<lambda>(k, v). k \<notin> tag_keys) (snd (enrich_all a r xs \<sigma>) y) =
   filter (\<lambda>(k, v). k \<notin> tag_keys) (\<sigma> y)"
proof (induction xs arbitrary: \<sigma>)
  case Nil
  show ?case by simp
next
  case (Cons x xs)
  have "snd (enrich_all a r (x # xs) \<sigma>) y = snd (enrich_all a r xs (snd (enrich_result a r x \<sigma>))) y"
    by (simp add: split_beta)
  then show ?case
    using Cons.IH [of "snd (enrich_result a r x \<sigma>)"] enrich_result_rest [of a r x \<sigma> y]
    by simp
qed

lemma enrich_all_has_tags: "y \<in> set xs \<Longrightarrow> has_tags a r (snd (enrich_all a r xs \<sigma>) y)"
proof (induction xs arbitrary: \<sigma>)
  case Nil
  then show ?case by simp
next
  case (Cons x xs)
  have step: "snd (enrich_all a r (x # xs) \<sigma>) y = snd (enrich_all a r xs (snd (enrich_result a r x \<sigma>))) y"
    by (simp add: split_beta)
  show ?case
  proof (cases "y \<in> set xs")
    case True
    then show ?thesis
      unfolding step by (rule Cons.IH)
  next
    case False
    with Cons.prems have "y = x" by simp
    from False have "snd (enrich_all a r xs (snd (enrich_result a r x \<sigma>))) y = snd (enrich_result a r x \<sigma>) y"
      by (rule enrich_all_other)
    with step \<open>y = x\<close> have "snd (enrich_all a r (x # xs) \<sigma>) y = snd (enrich_result a r x \<sigma>) x"
      by simp
    then show ?thesis
      using enrich_result_has_tags [of a r x \<sigma>] by simp
  qed
qed

section \<open>Facts about execute_benchmark\<close>

lemma execute_benchmark_ok:
  assumes "abn a = Inr p" and "run r p v c kw (store nb) = (\<sigma>1, Inr results)"
  shows "execute_benchmark abn a r v c kw nb =
           (nb\<lparr>store := snd (enrich_all a r results \<sigma>1),
               benchmark_results := benchmark_results nb @ results\<rparr>, Inr ())"
  using assms enrich_all_fst [of a r results \<sigma>1]
  by (simp add: execute_benchmark_def split_beta Let_def)

lemma execute_benchmark_run_raises:
  assumes "abn a = Inr p" and "run r p v c kw (store nb) = (\<sigma>1, Inl e)"
  shows "execute_benchmark abn a r v c kw nb = (nb\<lparr>store := \<sigma>1\<rparr>, Inl e)"
  using assms by (simp add: execute_benchmark_def)

lemma execute_benchmark_lookup_raises:
  assumes "abn a = Inl e"
  shows "execute_benchmark abn a r v c kw nb = (nb, Inl e)"
  using assms by (simp add: execute_benchmark_def)

lemma execute_benchmark_returns:
  assumes "execute_benchmark abn a r v c kw nb = (nb', Inr ())"
  obtains p \<sigma>1 results where "abn a = Inr p"
    and "run r p v c kw (store nb) = (\<sigma>1, Inr results)"
    and "nb' = nb\<lparr>store := snd (enrich_all a r results \<sigma>1),
                  benchmark_results := benchmark_results nb @ results\<rparr>"
proof (cases "abn a")
  case (Inl e)
  from execute_benchmark_lookup_raises [of abn a e r v c kw nb] Inl assms show ?thesis
    by simp
next
  case (Inr p)
  obtain \<sigma>1 out where run: "run r p v c kw (store nb) = (\<sigma>1, out)"
    by (cases "run r p v c kw (store nb)")
  show ?thesis
  proof (cases out)
    case (Inl e)
    from execute_benchmark_run_raises [of abn a p r v c kw nb \<sigma>1 e] Inr run Inl assms
    show ?thesis by simp
  next
    case res: (Inr results)
    from execute_benchmark_ok [of abn a p r v c kw nb \<sigma>1 results] Inr run res assms
    have "nb' = nb\<lparr>store := snd (enrich_all a r results \<sigma>1),
                  benchmark_results := benchmark_results nb @ results\<rparr>"
      by simp
    with that Inr run res show ?thesis by simp
  qed
qed

lemma execute_benchmark_raised:
  assumes "execute_benchmark abn a r v c kw nb = (nb', Inl e)"
  shows "benchmark_results nb' = benchmark_results nb"
proof (cases "abn a")
  case (Inl e')
  then show ?thesis
    using execute_benchmark_lookup_raises [of abn a e' r v c kw nb] assms by simp
next
  case (Inr p)
  obtain \<sigma>1 out where run: "run r p v c kw (store nb) = (\<sigma>1, out)"
    by (cases "run r p v c kw (store nb)")
  show ?thesis
  proof (cases out)
    case (Inl e')
    then show ?thesis
      using execute_benchmark_run_raises [of abn a p r v c kw nb \<sigma>1 e'] Inr run assms by auto
  next
    case res: (Inr results)
    then show ?thesis
      using execute_benchmark_ok [of abn a p r v c kw nb \<sigma>1 results] Inr run assms by simp
  qed
qed

lemma execute_benchmark_prefix:
  "\<exists>new. benchmark_results (fst (execute_benchmark abn a r v c kw nb)) = benchmark_results nb @ new"
proof (cases "abn a")
  case (Inl e)
  then show ?thesis
    using execute_benchmark_lookup_raises [of abn a e r v c kw nb] by simp
next
  case (Inr p)
  obtain \<sigma>1 out where run: "run r p v c kw (store nb) = (\<sigma>1, out)"
    by (cases "run r p v c kw (store nb)")
  show ?thesis
  proof (cases out)
    case (Inl e)
    then show ?thesis
      using execute_benchmark_run_raises [of abn a p r v c kw nb \<sigma>1 e] Inr run by simp
  next
    case res: (Inr results)
    then show ?thesis
      using execute_benchmark_ok [of abn a p r v c kw nb \<sigma>1 results] Inr run by simp
  qed
qed

lemma execute_benchmark_writes:
  assumes "abn a = Inr p" and "run r p v c kw (store nb) = (\<sigma>1, Inr results)"
  shows "store (fst (execute_benchmark abn a r v c kw nb)) = snd (enrich_all a r results \<sigma>1)"
  using execute_benchmark_ok [of abn a p r v c kw nb \<sigma>1 results] assms by simp

lemma execute_benchmark_count:
  assumes "abn a = Inr p" and "run r p v c kw (store nb) = (\<sigma>1, Inr results)"
  shows "length (benchmark_results (fst (execute_benchmark abn a r v c kw nb))) =
           length (benchmark_results nb) + length results"
  using execute_benchmark_ok [of abn a p r v c kw nb \<sigma>1 results] assms by simp

lemma map_of_filter_keys:
  "P k \<Longrightarrow> map_of (filter (\<lambda>(k', v). P k') al) k = map_of al k"
  by (induction al) auto

lemma execute_benchmark_other_fields:
  assumes "abn a = Inr p" and "run r p v c kw (store nb) = (\<sigma>1, Inr results)"
    and "k \<notin> tag_keys"
  shows "map_of (store (fst (execute_benchmark abn a r v c kw nb)) x) k = map_of (\<sigma>1 x) k"
proof -
  have "store (fst (execute_benchmark abn a r v c kw nb)) x = snd (enrich_all a r results \<sigma>1) x"
    using execute_benchmark_ok [of abn a p r v c kw nb \<sigma>1 results] assms(1,2) by simp
  moreover have "filter (\<lambda>(k, v). k \<notin> tag_keys) (snd (enrich_all a r results \<sigma>1) x) =
      filter (\<lambda>(k, v). k \<notin> tag_keys) (\<sigma>1 x)"
    by (rule enrich_all_rest)
  ultimately have "map_of (filter (\<lambda>(k, v). k \<notin> tag_keys) (store (fst (execute_benchmark abn a r v c kw nb)) x)) k =
      map_of (filter (\<lambda>(k, v). k \<notin> tag_keys) (\<sigma>1 x)) k"
    by simp
  with assms(3) show ?thesis
    by (simp add: map_of_filter_keys [of "\<lambda>k. k \<notin> tag_keys"])
qed

section \<open>Facts about the cells that chart and store\<close>

lemma cell_convert_reads:
  "store (cell_convert nb) = store nb \<and> benchmark_results (cell_convert nb) = benchmark_results nb"
  by (simp add: cell_convert_def)

lemma cell_chart_single_reads:
  "store (fst (cell_chart_single plot_bar algorithm nb)) = store nb \<and>
   benchmark_results (fst (cell_chart_single plot_bar algorithm nb)) = benchmark_results nb"
  by (simp add: cell_chart_single_def split: option.split sum.split)

lemma cell_chart_all_reads:
  "store (fst (cell_chart_all fmean plot_bar nb)) = store nb \<and>
   benchmark_results (fst (cell_chart_all fmean plot_bar nb)) = benchmark_results nb"
  by (simp add: cell_chart_all_def split: option.split sum.split)

lemma cell_to_csv_reads:
  "store (fst (cell_to_csv nb)) = store nb \<and>
   benchmark_results (fst (cell_to_csv nb)) = benchmark_results nb"
  by (simp add: cell_to_csv_def split: option.split)

section \<open>Facts about data frames\<close>

lemma set_first_seen: "set (first_seen xs) = set xs"
  by (simp add: first_seen_def)

lemma distinct_first_seen: "distinct (first_seen xs)"
  by (simp add: first_seen_def)

lemma DataFrame_columns:
  "set (columns (DataFrame recs)) = (\<Union>r \<in> set recs. fst ` set r)"
  by (auto simp add: DataFrame_def set_first_seen)

lemma DataFrame_rows:
  "length (rows (DataFrame recs)) = length recs"
  "n < length recs \<Longrightarrow> rows (DataFrame recs) ! n = (n, recs ! n)"
  by (simp_all add: DataFrame_def nth_enumerate_eq)

lemma to_csv_cell:
  assumes "n < length (rows d)" and "k \<in> set (columns d)" and "k \<noteq> ''''"
  shows "csv_cell (to_csv d) n k = Some (map_of (snd (rows d ! n)) k)"
proof -
  obtain m r where row: "rows d ! n = (m, r)"
    by (cases "rows d ! n")
  with assms(1) have "csv_body (to_csv d) ! n = Some (PInt (int m)) # map (map_of r) (columns d)"
    by (simp add: to_csv_def)
  then have "csv_cell (to_csv d) n k = map_of (zip (columns d) (map (map_of r) (columns d))) k"
    using assms(3) by (simp add: csv_cell_def to_csv_def)
  also have "\<dots> = Some (map_of r k)"
    using assms(2) by (simp add: map_of_zip_map)
  finally show ?thesis
    by (simp add: row)
qed

lemma set_insort_by: "set (insort_by le x xs) = insert x (set xs)"
  by (induction xs) auto

lemma set_sort_by: "set (sort_by le xs) = set xs"
  by (induction xs) (simp_all add: sort_by_def set_insort_by)

lemma distinct_insort_by: "distinct (insort_by le x xs) \<longleftrightarrow> x \<notin> set xs \<and> distinct xs"
  by (induction xs) (auto simp add: set_insort_by)

lemma distinct_sort_by: "distinct (sort_by le xs) \<longleftrightarrow> distinct xs"
proof (induction xs)
  case Nil
  show ?case by (simp add: sort_by_def)
next
  case (Cons x xs)
  have "sort_by le (x # xs) = insort_by le x (sort_by le xs)"
    by (simp add: sort_by_def)
  with Cons show ?case
    by (simp add: distinct_insort_by set_sort_by)
qed

lemma length_insort_by: "length (insort_by le x xs) = Suc (length xs)"
  by (induction xs) auto

lemma length_sort_by: "length (sort_by le xs) = length xs"
  by (induction xs) (simp_all add: sort_by_def length_insort_by)

section \<open>Facts about grouping\<close>


lemma label_of_LStr: "label_of c = LStr s \<longleftrightarrow> c = Some (PStr s)"
  by (cases c rule: label_of.cases) simp_all












section \<open>Facts about the pivot\<close>

lemma find_SomeD: "find P xs = Some x \<Longrightarrow> P x \<and> x \<in> set xs"
  by (induction xs) (auto split: if_splits)

lemma find_in: "x \<in> set xs \<Longrightarrow> P x \<Longrightarrow> \<exists>y. find P xs = Some y"
  by (induction xs) auto

lemma lookup_cell_found:
  assumes dist: "distinct (pivot_keys i c rs)" and mem: "(m, r) \<in> set rs"
  shows "lookup_cell i c v rs (label_of (map_of r i)) (label_of (map_of r c)) = map_of r v"
proof -
  let ?key = "\<lambda>(m :: nat, r). (label_of (map_of r i), label_of (map_of r c))"
  let ?P = "\<lambda>(m' :: nat, r'). label_of (map_of r' i) = label_of (map_of r i) \<and>
      label_of (map_of r' c) = label_of (map_of r c)"
  from mem have "\<exists>y. find ?P rs = Some y"
    by (rule find_in) simp
  then obtain m' r' where found: "find ?P rs = Some (m', r')"
    by auto
  then have P: "?P (m', r')" and in': "(m', r') \<in> set rs"
    using find_SomeD [of ?P rs "(m', r')"] by blast+
  from dist have "inj_on ?key (set rs)"
    by (simp add: pivot_keys_def distinct_map)
  moreover from P have "?key (m', r') = ?key (m, r)"
    by simp
  ultimately have "(m', r') = (m, r)"
    using in' mem by (rule inj_onD)
  with found show ?thesis
    by (simp add: lookup_cell_def)
qed

lemma loc_eq_algo:
  assumes "''algo'' \<in> set (columns d)"
  shows "loc_eq ''algo'' (PStr a) d = Inr (d\<lparr>rows := algo_rows a d\<rparr>)"
  using assms by (simp add: loc_eq_def algo_rows_def label_of_LStr)

lemma pivot_keys_algo_rows:
  "pivot_keys ''n_samples'' ''n_features'' (algo_rows a d) = sweep_points a d"
  by (simp add: pivot_keys_def sweep_points_def)

lemma chart_single_duplicates:
  assumes cols: "{''algo'', ''n_samples'', ''n_features'', ''speedup''} \<subseteq> set (columns d)"
    and dup: "\<not> distinct (sweep_points a d)"
  shows "chart_single_algo_speedup plot_bar d a = Inl ValueError"
  using assms
  by (simp add: chart_single_algo_speedup_def loc_eq_algo pivot_def pivot_keys_algo_rows)

lemma chart_single_table:
  assumes cols: "{''algo'', ''n_samples'', ''n_features'', ''speedup''} \<subseteq> set (columns d)"
    and dist: "distinct (sweep_points a d)"
    and t: "t = \<lparr>p_index = sort_by label_le (remdups (map fst (sweep_points a d))),
        p_columns = sort_by label_le (remdups (map snd (sweep_points a d))),
        p_values = map (\<lambda>ri. map (\<lambda>ci. lookup_cell ''n_samples'' ''n_features'' ''speedup''
                                          (algo_rows a d) ri ci)
                                  (sort_by label_le (remdups (map snd (sweep_points a d)))))
                       (sort_by label_le (remdups (map fst (sweep_points a d))))\<rparr>"
  shows "chart_single_algo_speedup plot_bar d a =
     (case plot_bar (BarPivot (a @ '' Speedup'') t) of
        Inl e \<Rightarrow> Inl e
      | Inr u \<Rightarrow> Inr (BarPivot (a @ '' Speedup'') t))"
  using cols dist unfolding t
  by (simp add: chart_single_algo_speedup_def loc_eq_algo pivot_def pivot_keys_algo_rows Let_def)

section \<open>The concrete session, evaluated\<close>

lemma example_run_eq:
  "run example_runner () v c kw \<sigma> = (\<sigma>(10 := record_32, 11 := record_256), Inr [10, 11])"
  by (simp add: example_runner_def example_run_def)

lemma failing_run_eq:
  "run failing_runner () v c kw \<sigma> = (\<sigma>, Inl (Raised ''out of memory''))"
  by (simp add: failing_runner_def failing_run_def)

lemma aliasing_run_eq:
  "run aliasing_runner () v c kw \<sigma> = (\<sigma>, Inr [0])"
  by (simp add: aliasing_runner_def aliasing_run_def)

lemma example_tags:
  "dataset_name example_runner = ''blobs'' \<and> input_type example_runner = ''numpy''"
  by (simp add: example_runner_def DATA_NEIGHBORHOODS_def INPUT_TYPE_def)

lemma aliasing_tags:
  "dataset_name aliasing_runner = ''blobs'' \<and> input_type aliasing_runner = ''numpy''"
  by (simp add: aliasing_runner_def example_tags)

lemma example_notebook_simps:
  "benchmark_results example_notebook = [0]"
  "store example_notebook 0 = earlier_record"
  by (simp_all add: example_notebook_def)

lemma example_session_eq:
  "example_session =
     example_notebook\<lparr>store := snd (enrich_all ''KMeans'' example_runner [10, 11]
           ((store example_notebook)(10 := record_32, 11 := record_256))),
         benchmark_results := benchmark_results example_notebook @ [10, 11]\<rparr>"
proof -
  have "execute_benchmark example_abn ''KMeans'' example_runner VERBOSE RUN_CPU [] example_notebook =
      (example_notebook\<lparr>store := snd (enrich_all ''KMeans'' example_runner [10, 11]
           ((store example_notebook)(10 := record_32, 11 := record_256))),
         benchmark_results := benchmark_results example_notebook @ [10, 11]\<rparr>, Inr ())"
    by (rule execute_benchmark_ok [of example_abn _ "()"]) (simp_all add: example_abn_def example_run_eq)
  then show ?thesis
    by (simp add: example_session_def)
qed

lemma example_execute:
  "execute_benchmark example_abn ''KMeans'' example_runner VERBOSE RUN_CPU [] example_notebook =
     (example_session, Inr ())"
proof -
  have "execute_benchmark example_abn ''KMeans'' example_runner VERBOSE RUN_CPU [] example_notebook =
      (example_notebook\<lparr>store := snd (enrich_all ''KMeans'' example_runner [10, 11]
           ((store example_notebook)(10 := record_32, 11 := record_256))),
         benchmark_results := benchmark_results example_notebook @ [10, 11]\<rparr>, Inr ())"
    by (rule execute_benchmark_ok [of example_abn _ "()"]) (simp_all add: example_abn_def example_run_eq)
  then show ?thesis
    by (simp only: example_session_eq)
qed

lemma example_session_results: "benchmark_results example_session = [0, 10, 11]"
  by (simp add: example_session_eq example_notebook_simps)

lemma example_session_store:
  "store example_session 0 = earlier_record"
  "store example_session 10 = record_32 @ kmeans_tags"
  "store example_session 11 = record_256 @ kmeans_tags"
proof -
  show "store example_session 0 = earlier_record"
    apply (simp add: example_session_eq)
    apply (simp add: split_beta enrich_result_def setitem_def Let_def)
    apply (simp add: example_notebook_simps)
    done
  show "store example_session 10 = record_32 @ kmeans_tags"
    apply (simp add: example_session_eq)
    apply (simp add: split_beta enrich_result_def setitem_def Let_def)
    apply (simp add: example_tags record_32_def kmeans_tags_def)
    done
  show "store example_session 11 = record_256 @ kmeans_tags"
    apply (simp add: example_session_eq)
    apply (simp add: split_beta enrich_result_def setitem_def Let_def)
    apply (simp add: example_tags record_256_def kmeans_tags_def)
    done
qed

lemma example_session_records:
  "map (store example_session) (benchmark_results example_session) =
     [earlier_record, record_32 @ kmeans_tags, record_256 @ kmeans_tags]"
  by (simp add: example_session_results example_session_store)

lemma DataFrame_example:
  "DataFrame [earlier_record, record_32 @ kmeans_tags, record_256 @ kmeans_tags] =
     \<lparr>columns = [''cuml_time'', ''cpu_time'', ''speedup'', ''n_samples'', ''n_features'',
                  ''algo'', ''dataset_name'', ''input_type''],
      rows = [(0, earlier_record), (1, record_32 @ kmeans_tags), (2, record_256 @ kmeans_tags)]\<rparr>"
  apply (simp add: DataFrame_def first_seen_def enumerate_eq_zip)
  apply (simp add: earlier_record_def record_32_def record_256_def kmeans_tags_def)
  done

lemma session_frame_eq:
  "session_frame =
     \<lparr>columns = [''cuml_time'', ''cpu_time'', ''speedup'', ''n_samples'', ''n_features'',
                  ''algo'', ''dataset_name'', ''input_type''],
      rows = [(0, earlier_record), (1, record_32 @ kmeans_tags), (2, record_256 @ kmeans_tags)]\<rparr>"
  by (simp only: session_frame_def example_session_records DataFrame_example)

lemma session_frame_points:
  "sweep_points ''KMeans'' session_frame = [(LNum 16384, LNum 32), (LNum 16384, LNum 256)]"
  apply (simp add: sweep_points_def algo_rows_def session_frame_eq)
  apply (simp add: earlier_record_def record_32_def record_256_def kmeans_tags_def)
  done

lemma session_frame_kmeans_rows:
  "algo_rows ''KMeans'' session_frame = [(1, record_32 @ kmeans_tags), (2, record_256 @ kmeans_tags)]"
  apply (simp add: algo_rows_def session_frame_eq)
  apply (simp add: earlier_record_def record_32_def record_256_def kmeans_tags_def)
  done

lemma repeated_frame_eq:
  "repeated_frame =
     \<lparr>columns = [''cuml_time'', ''cpu_time'', ''speedup'', ''n_samples'', ''n_features'',
                  ''algo'', ''dataset_name'', ''input_type''],
      rows = [(0, record_32 @ kmeans_tags), (1, second_repetition @ kmeans_tags)]\<rparr>"
  apply (simp add: repeated_frame_def DataFrame_def first_seen_def enumerate_eq_zip)
  apply (simp add: record_32_def second_repetition_def kmeans_tags_def)
  done

lemma repeated_frame_points:
  "sweep_points ''KMeans'' repeated_frame = [(LNum 16384, LNum 32), (LNum 16384, LNum 32)]"
  apply (simp add: sweep_points_def algo_rows_def repeated_frame_eq)
  apply (simp add: record_32_def second_repetition_def kmeans_tags_def)
  done

lemma by_value_frame_eq:
  "by_value_frame =
     \<lparr>columns = [''cuml_time'', ''cpu_time'', ''speedup'', ''n_samples'', ''n_features'',
                  ''algo'', ''dataset_name'', ''input_type''],
      rows = [(0, record_32 @ kmeans_tags), (1, float_count_record @ kmeans_tags)]\<rparr>"
  apply (simp add: by_value_frame_def DataFrame_def first_seen_def enumerate_eq_zip)
  apply (simp add: record_32_def float_count_record_def kmeans_tags_def)
  done

lemma by_value_frame_points:
  "sweep_points ''KMeans'' by_value_frame = [(LNum 16384, LNum 32), (LNum 16384, LNum 32)]"
  apply (simp add: sweep_points_def algo_rows_def by_value_frame_eq)
  apply (simp add: record_32_def float_count_record_def kmeans_tags_def)
  done

text \<open>
  The int 16384 and the float 16384.0 are one row label: the pivot finds a duplicate
  entry, and the grouping makes one group of the two records.
\<close>

lemma chart_single_by_value:
  "chart_single_algo_speedup plot_bar by_value_frame ''KMeans'' = Inl ValueError"
  by (rule chart_single_duplicates) (simp_all add: by_value_frame_points, simp add: by_value_frame_eq)

lemma chart_all_by_value:
  "chart_all_algo_speedup example_mean example_plot by_value_frame =
     Inr (BarGrouped
       \<lparr>g_keys = [''algo'', ''n_samples''], g_columns = [''speedup''],
        g_index = [[LStr ''KMeans'', LNum 16384]], g_values = [[Finite 3]]\<rparr>)"
  apply (simp add: by_value_frame_eq chart_all_algo_speedup_def getitem_columns_def)
  apply (simp add: record_32_def float_count_record_def kmeans_tags_def)
  apply (simp add: groupby_mean_def group_keys_def group_cells_def row_key_def Let_def)
  apply (simp add: sort_by_def example_mean_def)
  done

text \<open>
  An algorithm with no record: the selection is empty, the pivot is the empty table, and
  the exception of the plot is the function's.
\<close>

lemma chart_single_no_record:
  "chart_single_algo_speedup example_plot session_frame ''TSNE'' = Inl TypeError"
proof -
  have cols: "{''algo'', ''n_samples'', ''n_features'', ''speedup''} \<subseteq> set (columns session_frame)"
    by (simp add: session_frame_eq)
  have "map (\<lambda>(m, r). map_of r ''algo'') (rows session_frame) =
      [Some (PStr ''LinearRegression''), Some (PStr ''KMeans''), Some (PStr ''KMeans'')]"
    by (simp add: session_frame_eq earlier_record_def record_32_def record_256_def kmeans_tags_def)
  then have "\<forall>(m, r) \<in> set (rows session_frame). map_of r ''algo'' \<noteq> Some (PStr ''TSNE'')"
    by (simp add: session_frame_eq)
  then have none: "algo_rows ''TSNE'' session_frame = []"
    unfolding algo_rows_def by (auto simp add: filter_empty_conv)
  then have points: "sweep_points ''TSNE'' session_frame = []"
    by (simp add: sweep_points_def)
  then have dist: "distinct (sweep_points ''TSNE'' session_frame)"
    by simp
  show ?thesis
    unfolding chart_single_table [OF cols dist refl] by (simp add: points sort_by_def)
qed

section \<open>enrich_result writes three keys and nothing else\<close>

text \<open>
  Claim C9. For every record passed to \<^verbatim>\<open>enrich_result\<close>, the function returns the
  address it was given (the same dict object, not a copy); in that dict every entry
  under a key other than \<^verbatim>\<open>algo\<close>, \<^verbatim>\<open>dataset_name\<close> and \<^verbatim>\<open>input_type\<close> is what it
  was, in the same order; the three tags hold the algorithm name and the runner's
  \<^verbatim>\<open>dataset_name\<close> and \<^verbatim>\<open>input_type\<close>; and no other dict of the store changes.
\<close>

theorem enrich_result_frame:
  "fst (enrich_result a r x \<sigma>) = x \<and>
   filter (\<lambda>(k, v). k \<notin> {''algo'', ''dataset_name'', ''input_type''}) (snd (enrich_result a r x \<sigma>) x) =
     filter (\<lambda>(k, v). k \<notin> {''algo'', ''dataset_name'', ''input_type''}) (\<sigma> x) \<and>
   (\<forall>k. k \<notin> {''algo'', ''dataset_name'', ''input_type''} \<longrightarrow>
      map_of (snd (enrich_result a r x \<sigma>) x) k = map_of (\<sigma> x) k) \<and>
   map_of (snd (enrich_result a r x \<sigma>) x) ''algo'' = Some (PStr a) \<and>
   map_of (snd (enrich_result a r x \<sigma>) x) ''dataset_name'' = Some (PStr (dataset_name r)) \<and>
   map_of (snd (enrich_result a r x \<sigma>) x) ''input_type'' = Some (PStr (input_type r)) \<and>
   (\<forall>y. y \<noteq> x \<longrightarrow> snd (enrich_result a r x \<sigma>) y = \<sigma> y)"
proof (intro conjI allI impI)
  show "fst (enrich_result a r x \<sigma>) = x"
    by (rule enrich_result_fst)
  show "filter (\<lambda>(k, v). k \<notin> {''algo'', ''dataset_name'', ''input_type''}) (snd (enrich_result a r x \<sigma>) x) =
     filter (\<lambda>(k, v). k \<notin> {''algo'', ''dataset_name'', ''input_type''}) (\<sigma> x)"
    using enrich_result_rest [of a r x \<sigma> x] unfolding tag_keys_def .
  show "map_of (snd (enrich_result a r x \<sigma>) x) k = map_of (\<sigma> x) k"
    if "k \<notin> {''algo'', ''dataset_name'', ''input_type''}" for k
    using that unfolding enrich_result_same update_conv' by simp
  have "has_tags a r (snd (enrich_result a r x \<sigma>) x)"
    by (rule enrich_result_has_tags)
  then show "map_of (snd (enrich_result a r x \<sigma>) x) ''algo'' = Some (PStr a)"
    and "map_of (snd (enrich_result a r x \<sigma>) x) ''dataset_name'' = Some (PStr (dataset_name r))"
    and "map_of (snd (enrich_result a r x \<sigma>) x) ''input_type'' = Some (PStr (input_type r))"
    unfolding has_tags_def by blast+
  show "snd (enrich_result a r x \<sigma>) y = \<sigma> y" if "y \<noteq> x" for y
    using that by (rule enrich_result_other)
qed

theorem enrich_result_frame_witness:
  "''speedup'' \<notin> {''algo'', ''dataset_name'', ''input_type''} \<and>
   map_of (snd (enrich_result ''KMeans'' example_runner 10 ((store example_notebook)(10 := record_32))) 10)
     ''speedup'' = Some (PFloat 4) \<and>
   (0::nat) \<noteq> 10 \<and>
   snd (enrich_result ''KMeans'' example_runner 10 ((store example_notebook)(10 := record_32))) 0 =
     earlier_record \<and>
   fst (enrich_result ''KMeans'' example_runner 10 ((store example_notebook)(10 := record_32))) = 10"
  using enrich_result_frame [of "''KMeans''" example_runner 10 "(store example_notebook)(10 := record_32)"]
  by (simp add: record_32_def example_notebook_simps)

section \<open>Every appended record is tagged\<close>

text \<open>
  Claim C2. Whatever the outcome of \<^verbatim>\<open>execute_benchmark\<close> for algorithm name \<open>a\<close> on
  runner \<open>r\<close>, the accumulated list afterwards is the old list followed by the records
  this invocation appended (none when it raised), and every appended record has
  \<^verbatim>\<open>algo\<close> equal to \<open>a\<close>, \<^verbatim>\<open>dataset_name\<close> equal to \<^verbatim>\<open>r.dataset_name\<close> and
  \<^verbatim>\<open>input_type\<close> equal to \<^verbatim>\<open>r.input_type\<close>.
\<close>

theorem execute_benchmark_tags:
  assumes "execute_benchmark abn a r v c kw nb = (nb', out)"
  shows "take (length (benchmark_results nb)) (benchmark_results nb') = benchmark_results nb \<and>
    (\<forall>x \<in> set (drop (length (benchmark_results nb)) (benchmark_results nb')).
       map_of (store nb' x) ''algo'' = Some (PStr a) \<and>
       map_of (store nb' x) ''dataset_name'' = Some (PStr (dataset_name r)) \<and>
       map_of (store nb' x) ''input_type'' = Some (PStr (input_type r)))"
proof (cases out)
  case (Inl e)
  with assms have "benchmark_results nb' = benchmark_results nb"
    using execute_benchmark_raised [of abn a r v c kw nb nb' e] by simp
  then show ?thesis by simp
next
  case (Inr u)
  with assms have "execute_benchmark abn a r v c kw nb = (nb', Inr ())"
    by simp
  then obtain p \<sigma>1 results where
    nb': "nb' = nb\<lparr>store := snd (enrich_all a r results \<sigma>1),
                  benchmark_results := benchmark_results nb @ results\<rparr>"
    by (rule execute_benchmark_returns)
  have "has_tags a r (store nb' x)" if "x \<in> set results" for x
    unfolding nb' using that by (simp add: enrich_all_has_tags)
  then have "\<forall>x \<in> set results. map_of (store nb' x) ''algo'' = Some (PStr a) \<and>
       map_of (store nb' x) ''dataset_name'' = Some (PStr (dataset_name r)) \<and>
       map_of (store nb' x) ''input_type'' = Some (PStr (input_type r))"
    unfolding has_tags_def by blast
  moreover have "benchmark_results nb' = benchmark_results nb @ results"
    unfolding nb' by simp
  ultimately show ?thesis by simp
qed

theorem execute_benchmark_tags_witness:
  "snd (execute_benchmark example_abn ''KMeans'' example_runner VERBOSE RUN_CPU [] example_notebook) = Inr () \<and>
   benchmark_results (fst (execute_benchmark example_abn ''KMeans'' example_runner VERBOSE RUN_CPU [] example_notebook)) = [0, 10, 11] \<and>
   map (\<lambda>x. map_of (store (fst (execute_benchmark example_abn ''KMeans'' example_runner VERBOSE RUN_CPU [] example_notebook)) x) ''algo'') [10, 11] =
     [Some (PStr ''KMeans''), Some (PStr ''KMeans'')] \<and>
   map (\<lambda>x. map_of (store (fst (execute_benchmark example_abn ''KMeans'' example_runner VERBOSE RUN_CPU [] example_notebook)) x) ''dataset_name'') [10, 11] =
     [Some (PStr ''blobs''), Some (PStr ''blobs'')] \<and>
   map (\<lambda>x. map_of (store (fst (execute_benchmark example_abn ''KMeans'' example_runner VERBOSE RUN_CPU [] example_notebook)) x) ''input_type'') [10, 11] =
     [Some (PStr ''numpy''), Some (PStr ''numpy'')]"
proof -
  let ?out = "execute_benchmark example_abn ''KMeans'' example_runner VERBOSE RUN_CPU [] example_notebook"
  have ok: "?out =
      (example_notebook\<lparr>store := snd (enrich_all ''KMeans'' example_runner [10, 11]
           ((store example_notebook)(10 := record_32, 11 := record_256))),
         benchmark_results := benchmark_results example_notebook @ [10, 11]\<rparr>, Inr ())"
    by (rule execute_benchmark_ok [of example_abn _ "()"]) (simp_all add: example_abn_def example_run_eq)
  then have hyp: "?out = (fst ?out, Inr ())"
    by simp
  have res: "benchmark_results (fst ?out) = [0, 10, 11]"
    unfolding ok by (simp add: example_notebook_simps)
  have ret: "snd ?out = Inr ()"
    unfolding ok by simp
  from execute_benchmark_tags [OF hyp] res example_tags ret show ?thesis
    by (simp add: example_notebook_simps)
qed

section \<open>An exception of the runner passes through\<close>

text \<open>
  Claim C4. When \<^verbatim>\<open>runner.run\<close> raises, \<^verbatim>\<open>execute_benchmark\<close> ends with that same
  exception: nothing catches it and nothing is retried. \<^verbatim>\<open>benchmark_results\<close> is the
  list it was, so no record of the failed invocation is appended; the store is the one
  the runner left (the function itself wrote nothing), so that the records accumulated
  before have the values they had unless the runner itself changed them; and the other
  globals are untouched.
\<close>

theorem execute_benchmark_propagates:
  assumes "abn a = Inr p" and "run r p v c kw (store nb) = (\<sigma>1, Inl e)"
  shows "snd (execute_benchmark abn a r v c kw nb) = Inl e \<and>
         benchmark_results (fst (execute_benchmark abn a r v c kw nb)) = benchmark_results nb \<and>
         store (fst (execute_benchmark abn a r v c kw nb)) = \<sigma>1 \<and>
         ((\<forall>x \<in> set (benchmark_results nb). \<sigma>1 x = store nb x) \<longrightarrow>
          (\<forall>x \<in> set (benchmark_results nb).
             store (fst (execute_benchmark abn a r v c kw nb)) x = store nb x)) \<and>
         df (fst (execute_benchmark abn a r v c kw nb)) = df nb \<and>
         charts (fst (execute_benchmark abn a r v c kw nb)) = charts nb \<and>
         files (fst (execute_benchmark abn a r v c kw nb)) = files nb"
proof -
  have "execute_benchmark abn a r v c kw nb = (nb\<lparr>store := \<sigma>1\<rparr>, Inl e)"
    using assms by (rule execute_benchmark_run_raises)
  then show ?thesis by simp
qed

theorem execute_benchmark_propagates_witness:
  "example_abn ''SVC-RBF'' = Inr () \<and>
   run failing_runner () VERBOSE RUN_CPU [] (store example_notebook) =
     (store example_notebook, Inl (Raised ''out of memory'')) \<and>
   snd (execute_benchmark example_abn ''SVC-RBF'' failing_runner VERBOSE RUN_CPU [] example_notebook) =
     Inl (Raised ''out of memory'') \<and>
   benchmark_results (fst (execute_benchmark example_abn ''SVC-RBF'' failing_runner VERBOSE RUN_CPU [] example_notebook)) = [0] \<and>
   store (fst (execute_benchmark example_abn ''SVC-RBF'' failing_runner VERBOSE RUN_CPU [] example_notebook)) 0 =
     earlier_record"
proof -
  have h1: "example_abn ''SVC-RBF'' = Inr ()"
    by (simp add: example_abn_def)
  have h2: "run failing_runner () VERBOSE RUN_CPU [] (store example_notebook) =
     (store example_notebook, Inl (Raised ''out of memory''))"
    by (rule failing_run_eq)
  from execute_benchmark_propagates [of example_abn "''SVC-RBF''" "()" failing_runner VERBOSE RUN_CPU "[]"
      example_notebook "store example_notebook" "Raised ''out of memory''"] h1 h2
  show ?thesis
    by (simp add: example_notebook_simps)
qed

section \<open>The k-means comparison is exact\<close>

text \<open>
  Claim C10. The k-means demo prints "equal" if and only if the adjusted rand score is
  exactly 1.0 and "NOT equal" for every other score; in particular for every score
  strictly below 1.0, however close to it.
\<close>

theorem compare_message_equal_iff:
  "(compare_message score = ''compare kmeans: cuml vs sklearn labels_ are equal'' \<longleftrightarrow>
      score = Finite 1) \<and>
   (compare_message score = ''compare kmeans: cuml vs sklearn labels_ are NOT equal'' \<longleftrightarrow>
      score \<noteq> Finite 1) \<and>
   (float_lt score (Finite 1) \<longrightarrow>
      compare_message score = ''compare kmeans: cuml vs sklearn labels_ are NOT equal'')"
proof -
  have p: "passed score \<longleftrightarrow> score = Finite 1"
    by (cases score) (simp_all add: passed_def)
  have lt: "score \<noteq> Finite 1" if "float_lt score (Finite 1)"
    using that by (cases score) auto
  show ?thesis
    using lt by (auto simp add: compare_message_def p)
qed

theorem compare_message_equal_iff_witness:
  "float_lt (Finite (1 - 1 / 2 ^ 53)) (Finite 1) \<and>
   compare_message (Finite (1 - 1 / 2 ^ 53)) =
     ''compare kmeans: cuml vs sklearn labels_ are NOT equal'' \<and>
   compare_message (Finite 1) = ''compare kmeans: cuml vs sklearn labels_ are equal'' \<and>
   compare_message NaN = ''compare kmeans: cuml vs sklearn labels_ are NOT equal''"
  using compare_message_equal_iff [of "Finite (1 - 1 / 2 ^ 53)"]
    compare_message_equal_iff [of "Finite 1"] compare_message_equal_iff [of NaN]
  by simp

section \<open>The accumulated list only grows\<close>

text \<open>
  Claim C3, as stated, has every invocation of \<^verbatim>\<open>execute_benchmark\<close> leave all
  previously accumulated records unchanged in value. A runner whose \<^verbatim>\<open>run\<close> hands back
  the dict already accumulated (and writes nothing itself): the call returns normally,
  the list holds that dict twice, and \<^verbatim>\<open>enrich_result\<close> has overwritten the tags of
  the earlier record, whose \<^verbatim>\<open>algo\<close> was \<^verbatim>\<open>LinearRegression\<close> and is now
  \<^verbatim>\<open>KMeans\<close>.
\<close>

theorem execute_benchmark_rewrites_returned_record:
  "benchmark_results example_notebook = [0] \<and>
   map_of (store example_notebook 0) ''algo'' = Some (PStr ''LinearRegression'') \<and>
   map_of (store example_notebook 0) ''dataset_name'' = Some (PStr ''regression'') \<and>
   run aliasing_runner () VERBOSE RUN_CPU [] (store example_notebook) =
     (store example_notebook, Inr [0]) \<and>
   snd (execute_benchmark example_abn ''KMeans'' aliasing_runner VERBOSE RUN_CPU [] example_notebook) =
     Inr () \<and>
   benchmark_results (fst (execute_benchmark example_abn ''KMeans'' aliasing_runner VERBOSE RUN_CPU []
       example_notebook)) = [0, 0] \<and>
   map_of (store (fst (execute_benchmark example_abn ''KMeans'' aliasing_runner VERBOSE RUN_CPU []
       example_notebook)) 0) ''algo'' = Some (PStr ''KMeans'') \<and>
   map_of (store (fst (execute_benchmark example_abn ''KMeans'' aliasing_runner VERBOSE RUN_CPU []
       example_notebook)) 0) ''dataset_name'' = Some (PStr ''blobs'')"
proof -
  let ?out = "execute_benchmark example_abn ''KMeans'' aliasing_runner VERBOSE RUN_CPU [] example_notebook"
  have ok: "?out =
      (example_notebook\<lparr>store := snd (enrich_all ''KMeans'' aliasing_runner [0] (store example_notebook)),
         benchmark_results := benchmark_results example_notebook @ [0]\<rparr>, Inr ())"
    by (rule execute_benchmark_ok [of example_abn _ "()"]) (simp_all add: example_abn_def aliasing_run_eq)
  have tags: "has_tags ''KMeans'' aliasing_runner
      (snd (enrich_all ''KMeans'' aliasing_runner [0] (store example_notebook)) 0)"
    by (rule enrich_all_has_tags) simp
  have before: "map_of (store example_notebook 0) ''algo'' = Some (PStr ''LinearRegression'')"
      "map_of (store example_notebook 0) ''dataset_name'' = Some (PStr ''regression'')"
    by (simp_all add: example_notebook_simps earlier_record_def)
  from tags before show ?thesis
    unfolding ok by (simp add: has_tags_def aliasing_tags aliasing_run_eq example_notebook_simps)
qed

text \<open>
  Claim C3, amended. \<^verbatim>\<open>benchmark_results\<close> is append-only as a sequence: every
  invocation of \<^verbatim>\<open>execute_benchmark\<close>, returning or raising, keeps the old list as a
  prefix of the new one, and on a normal return the new list is the old one followed by
  exactly the records \<^verbatim>\<open>run\<close> returned. What \<^verbatim>\<open>execute_benchmark\<close> writes, on top
  of what \<^verbatim>\<open>run\<close> left (the store \<open>\<sigma>1\<close>), is the three tags of the dicts
  \<^verbatim>\<open>run\<close> returned and nothing else: every dict that \<^verbatim>\<open>run\<close> did not return is as
  \<^verbatim>\<open>run\<close> left it, in every dict the entries under the other keys are as \<^verbatim>\<open>run\<close>
  left them, and every returned dict carries the tags of this invocation. So a record
  accumulated before keeps its value when \<^verbatim>\<open>run\<close> neither changed it nor returned it
  again; one that \<^verbatim>\<open>run\<close> returns again has its tags overwritten. When \<^verbatim>\<open>run\<close>
  raises the store is the one it left, and when \<^verbatim>\<open>algorithm_by_name\<close> raises the
  store is untouched. The conversion to a data frame, the two charting cells and the CSV
  export leave both the list and the store as they were.
\<close>

theorem benchmark_results_append_only:
  "(\<exists>new. benchmark_results (fst (execute_benchmark abn a r v c kw nb)) =
            benchmark_results nb @ new) \<and>
   (\<forall>p \<sigma>1 results. abn a = Inr p \<and> run r p v c kw (store nb) = (\<sigma>1, Inr results) \<longrightarrow>
      benchmark_results (fst (execute_benchmark abn a r v c kw nb)) =
        benchmark_results nb @ results \<and>
      (\<forall>x. x \<notin> set results \<longrightarrow> store (fst (execute_benchmark abn a r v c kw nb)) x = \<sigma>1 x) \<and>
      (\<forall>x. filter (\<lambda>(k, v). k \<notin> {''algo'', ''dataset_name'', ''input_type''})
              (store (fst (execute_benchmark abn a r v c kw nb)) x) =
            filter (\<lambda>(k, v). k \<notin> {''algo'', ''dataset_name'', ''input_type''}) (\<sigma>1 x)) \<and>
      (\<forall>x \<in> set results.
         map_of (store (fst (execute_benchmark abn a r v c kw nb)) x) ''algo'' = Some (PStr a) \<and>
         map_of (store (fst (execute_benchmark abn a r v c kw nb)) x) ''dataset_name'' =
           Some (PStr (dataset_name r)) \<and>
         map_of (store (fst (execute_benchmark abn a r v c kw nb)) x) ''input_type'' =
           Some (PStr (input_type r))) \<and>
      (\<forall>x \<in> set (benchmark_results nb). x \<notin> set results \<and> \<sigma>1 x = store nb x \<longrightarrow>
         store (fst (execute_benchmark abn a r v c kw nb)) x = store nb x)) \<and>
   (\<forall>p \<sigma>1 e. abn a = Inr p \<and> run r p v c kw (store nb) = (\<sigma>1, Inl e) \<longrightarrow>
      store (fst (execute_benchmark abn a r v c kw nb)) = \<sigma>1) \<and>
   (\<forall>e. abn a = Inl e \<longrightarrow> store (fst (execute_benchmark abn a r v c kw nb)) = store nb) \<and>
   store (cell_convert nb) = store nb \<and>
   benchmark_results (cell_convert nb) = benchmark_results nb \<and>
   store (fst (cell_chart_single plot_bar algorithm nb)) = store nb \<and>
   benchmark_results (fst (cell_chart_single plot_bar algorithm nb)) = benchmark_results nb \<and>
   store (fst (cell_chart_all fmean plot_bar nb)) = store nb \<and>
   benchmark_results (fst (cell_chart_all fmean plot_bar nb)) = benchmark_results nb \<and>
   store (fst (cell_to_csv nb)) = store nb \<and>
   benchmark_results (fst (cell_to_csv nb)) = benchmark_results nb"
proof -
  let ?nb' = "fst (execute_benchmark abn a r v c kw nb)"
  have returned: "benchmark_results ?nb' = benchmark_results nb @ results \<and>
      (\<forall>x. x \<notin> set results \<longrightarrow> store ?nb' x = \<sigma>1 x) \<and>
      (\<forall>x. filter (\<lambda>(k, v). k \<notin> {''algo'', ''dataset_name'', ''input_type''}) (store ?nb' x) =
            filter (\<lambda>(k, v). k \<notin> {''algo'', ''dataset_name'', ''input_type''}) (\<sigma>1 x)) \<and>
      (\<forall>x \<in> set results.
         map_of (store ?nb' x) ''algo'' = Some (PStr a) \<and>
         map_of (store ?nb' x) ''dataset_name'' = Some (PStr (dataset_name r)) \<and>
         map_of (store ?nb' x) ''input_type'' = Some (PStr (input_type r))) \<and>
      (\<forall>x \<in> set (benchmark_results nb). x \<notin> set results \<and> \<sigma>1 x = store nb x \<longrightarrow>
         store ?nb' x = store nb x)"
    if h: "abn a = Inr p \<and> run r p v c kw (store nb) = (\<sigma>1, Inr results)" for p \<sigma>1 results
  proof -
    from h have ok: "execute_benchmark abn a r v c kw nb =
        (nb\<lparr>store := snd (enrich_all a r results \<sigma>1),
            benchmark_results := benchmark_results nb @ results\<rparr>, Inr ())"
      using execute_benchmark_ok [of abn a p r v c kw nb \<sigma>1 results] by simp
    then have st: "store ?nb' = snd (enrich_all a r results \<sigma>1)"
      and res: "benchmark_results ?nb' = benchmark_results nb @ results"
      by simp_all
    have other: "store ?nb' x = \<sigma>1 x" if "x \<notin> set results" for x
      unfolding st using that by (rule enrich_all_other)
    have rest: "filter (\<lambda>(k, v). k \<notin> {''algo'', ''dataset_name'', ''input_type''}) (store ?nb' x) =
        filter (\<lambda>(k, v). k \<notin> {''algo'', ''dataset_name'', ''input_type''}) (\<sigma>1 x)" for x
      unfolding st using enrich_all_rest [of a r results \<sigma>1 x] unfolding tag_keys_def .
    have tags: "map_of (store ?nb' x) ''algo'' = Some (PStr a) \<and>
         map_of (store ?nb' x) ''dataset_name'' = Some (PStr (dataset_name r)) \<and>
         map_of (store ?nb' x) ''input_type'' = Some (PStr (input_type r))"
      if "x \<in> set results" for x
      unfolding st using enrich_all_has_tags [OF that, of a r \<sigma>1] unfolding has_tags_def .
    from res other rest tags show ?thesis
      by simp
  qed
  have raised: "store ?nb' = \<sigma>1"
    if "abn a = Inr p \<and> run r p v c kw (store nb) = (\<sigma>1, Inl e)" for p \<sigma>1 e
    using that execute_benchmark_run_raises [of abn a p r v c kw nb \<sigma>1 e] by simp
  have lookup: "store ?nb' = store nb" if "abn a = Inl e" for e
    using that execute_benchmark_lookup_raises [of abn a e r v c kw nb] by simp
  from execute_benchmark_prefix [of abn a r v c kw nb] returned raised lookup
    cell_convert_reads [of nb] cell_chart_single_reads [of plot_bar algorithm nb]
    cell_chart_all_reads [of fmean plot_bar nb] cell_to_csv_reads [of nb]
  show ?thesis by blast
qed

theorem benchmark_results_append_only_witness:
  "example_abn ''KMeans'' = Inr () \<and>
   run example_runner () VERBOSE RUN_CPU [] (store example_notebook) =
     ((store example_notebook)(10 := record_32, 11 := record_256), Inr [10, 11]) \<and>
   benchmark_results example_notebook = [0] \<and>
   benchmark_results (fst (execute_benchmark example_abn ''KMeans'' example_runner VERBOSE RUN_CPU []
       example_notebook)) = [0, 10, 11] \<and>
   store (fst (execute_benchmark example_abn ''KMeans'' example_runner VERBOSE RUN_CPU []
       example_notebook)) 0 = earlier_record \<and>
   map_of (store (fst (execute_benchmark example_abn ''KMeans'' example_runner VERBOSE RUN_CPU []
       example_notebook)) 10) ''algo'' = Some (PStr ''KMeans'') \<and>
   map_of (store (fst (execute_benchmark example_abn ''KMeans'' example_runner VERBOSE RUN_CPU []
       example_notebook)) 10) ''speedup'' = Some (PFloat 4) \<and>
   store (fst (execute_benchmark example_abn ''SVC-RBF'' failing_runner VERBOSE RUN_CPU []
       example_notebook)) 0 = earlier_record \<and>
   benchmark_results (cell_convert example_notebook) = [0] \<and>
   benchmark_results (fst (cell_chart_single example_plot ''LinearRegression'' example_notebook)) = [0] \<and>
   benchmark_results (fst (cell_chart_all example_mean example_plot example_notebook)) = [0] \<and>
   benchmark_results (fst (cell_to_csv example_notebook)) = [0]"
proof -
  let ?nb' = "fst (execute_benchmark example_abn ''KMeans'' example_runner VERBOSE RUN_CPU []
       example_notebook)"
  let ?\<sigma>1 = "(store example_notebook)(10 := record_32, 11 := record_256)"
  have abn: "example_abn s = Inr ()" for s
    by (simp add: example_abn_def)
  have run: "run example_runner () VERBOSE RUN_CPU [] (store example_notebook) = (?\<sigma>1, Inr [10, 11])"
    by (rule example_run_eq)
  have fail: "run failing_runner () VERBOSE RUN_CPU [] (store example_notebook) =
      (store example_notebook, Inl (Raised ''out of memory''))"
    by (rule failing_run_eq)
  note inst = benchmark_results_append_only [of example_abn "''KMeans''" example_runner
      VERBOSE RUN_CPU "[]" example_notebook example_plot "''LinearRegression''" example_mean]
  from inst abn run have step: "benchmark_results ?nb' = benchmark_results example_notebook @ [10, 11] \<and>
      (\<forall>x. x \<notin> set [10, 11] \<longrightarrow> store ?nb' x = ?\<sigma>1 x) \<and>
      (\<forall>x. filter (\<lambda>(k, v). k \<notin> {''algo'', ''dataset_name'', ''input_type''}) (store ?nb' x) =
            filter (\<lambda>(k, v). k \<notin> {''algo'', ''dataset_name'', ''input_type''}) (?\<sigma>1 x)) \<and>
      (\<forall>x \<in> set [10, 11]. map_of (store ?nb' x) ''algo'' = Some (PStr ''KMeans''))"
    by blast
  then have res: "benchmark_results ?nb' = [0, 10, 11]"
    by (simp add: example_notebook_simps)
  from step have "(0 :: nat) \<notin> set [10, 11] \<longrightarrow> store ?nb' 0 = ?\<sigma>1 0"
    by blast
  then have old: "store ?nb' 0 = earlier_record"
    by (simp add: example_notebook_simps)
  from step have algo: "map_of (store ?nb' 10) ''algo'' = Some (PStr ''KMeans'')"
    by simp
  from step have "filter (\<lambda>(k, v). k \<notin> {''algo'', ''dataset_name'', ''input_type''}) (store ?nb' 10) =
      filter (\<lambda>(k, v). k \<notin> {''algo'', ''dataset_name'', ''input_type''}) (?\<sigma>1 10)"
    by blast
  then have "map_of (filter (\<lambda>(k, v). k \<notin> {''algo'', ''dataset_name'', ''input_type''}) (store ?nb' 10)) ''speedup'' =
      Some (PFloat 4)"
    by (simp add: record_32_def)
  moreover have "map_of (filter (\<lambda>(k, v). k \<notin> {''algo'', ''dataset_name'', ''input_type''}) al) ''speedup'' =
      map_of al ''speedup''" for al :: pydict
    by (rule map_of_filter_keys) simp
  ultimately have speedup: "map_of (store ?nb' 10) ''speedup'' = Some (PFloat 4)"
    by (simp only:)
  from benchmark_results_append_only [of example_abn "''SVC-RBF''" failing_runner
      VERBOSE RUN_CPU "[]" example_notebook example_plot "''LinearRegression''" example_mean] abn fail
  have "store (fst (execute_benchmark example_abn ''SVC-RBF'' failing_runner VERBOSE RUN_CPU []
       example_notebook)) = store example_notebook"
    by blast
  then have failed: "store (fst (execute_benchmark example_abn ''SVC-RBF'' failing_runner VERBOSE RUN_CPU []
       example_notebook)) 0 = earlier_record"
    by (simp add: example_notebook_simps)
  from inst have cells: "benchmark_results (cell_convert example_notebook) = benchmark_results example_notebook"
    "benchmark_results (fst (cell_chart_single example_plot ''LinearRegression'' example_notebook)) =
       benchmark_results example_notebook"
    "benchmark_results (fst (cell_chart_all example_mean example_plot example_notebook)) =
       benchmark_results example_notebook"
    "benchmark_results (fst (cell_to_csv example_notebook)) = benchmark_results example_notebook"
    by blast+
  from abn run res old algo speedup failed cells show ?thesis
    by (simp add: example_notebook_simps)
qed

section \<open>The CSV export\<close>

text \<open>
  Claim C8, as stated, asks for a column named \<^verbatim>\<open>algorithm\<close> in the exported file. The
  session of the example, exported: the header is the index column followed by the keys
  of the records, the tag written by \<^verbatim>\<open>enrich_result\<close> is named \<^verbatim>\<open>algo\<close>, and no
  column is named \<^verbatim>\<open>algorithm\<close>.
\<close>

theorem csv_export_has_no_algorithm_column:
  "map_option csv_header (files (fst (cell_to_csv (cell_convert example_session))) ''benchmark_results.csv'') =
     Some ['''', ''cuml_time'', ''cpu_time'', ''speedup'', ''n_samples'', ''n_features'',
           ''algo'', ''dataset_name'', ''input_type''] \<and>
   ''algorithm'' \<notin> set ['''', ''cuml_time'', ''cpu_time'', ''speedup'', ''n_samples'', ''n_features'',
           ''algo'', ''dataset_name'', ''input_type'']"
proof -
  have "files (fst (cell_to_csv (cell_convert example_session))) ''benchmark_results.csv'' =
      Some (to_csv session_frame)"
    by (simp add: cell_to_csv_def cell_convert_def session_frame_def)
  then show ?thesis
    by (simp add: session_frame_eq to_csv_def)
qed

text \<open>
  Claim C8, amended. After an invocation of \<^verbatim>\<open>execute_benchmark\<close> for algorithm name
  \<open>a\<close> on runner \<open>r\<close>, the conversion cell followed by the export cell writes
  \<^verbatim>\<open>benchmark_results.csv\<close> as one flat table. Its header is the unnamed index column
  followed by the keys of the accumulated records in the order of their first
  appearance, and it has one line per accumulated record. For every record this
  invocation appended, the line of the record holds the algorithm identifier \<open>a\<close>
  under the column named \<^verbatim>\<open>algo\<close>, \<^verbatim>\<open>r.dataset_name\<close> under \<^verbatim>\<open>dataset_name\<close>
  and \<^verbatim>\<open>r.input_type\<close> under \<^verbatim>\<open>input_type\<close>, and these three columns exist. Every
  key of every accumulated record is a column, and the cell of a record's line under a
  column is the record's value for that key (\<^verbatim>\<open>NaN\<close> when it has none). A column named
  \<^verbatim>\<open>algorithm\<close> exists only if some accumulated record carries a key of that name.
\<close>

theorem csv_export_columns:
  fixes nb nb' :: notebook
  assumes exec: "execute_benchmark abn a r v c kw nb = (nb', out)"
  defines "recs \<equiv> map (store nb') (benchmark_results nb')"
  defines "f \<equiv> to_csv (DataFrame recs)"
  shows "cell_to_csv (cell_convert nb') =
           ((cell_convert nb')\<lparr>files := (files nb')(''benchmark_results.csv'' := Some f)\<rparr>, Inr ()) \<and>
         csv_header f = '''' # first_seen (concat (map (map fst) recs)) \<and>
         length (csv_body f) = length (benchmark_results nb') \<and>
         (\<forall>n. length (benchmark_results nb) \<le> n \<and> n < length (benchmark_results nb') \<longrightarrow>
            {''algo'', ''dataset_name'', ''input_type''} \<subseteq> set (csv_header f) \<and>
            csv_cell f n ''algo'' = Some (Some (PStr a)) \<and>
            csv_cell f n ''dataset_name'' = Some (Some (PStr (dataset_name r))) \<and>
            csv_cell f n ''input_type'' = Some (Some (PStr (input_type r)))) \<and>
         (\<forall>x \<in> set (benchmark_results nb'). \<forall>k w. map_of (store nb' x) k = Some w \<longrightarrow>
            k \<in> set (csv_header f)) \<and>
         (\<forall>n < length (benchmark_results nb'). \<forall>k \<in> set (csv_header f). k \<noteq> '''' \<longrightarrow>
            csv_cell f n k = Some (map_of (store nb' (benchmark_results nb' ! n)) k)) \<and>
         (''algorithm'' \<in> set (csv_header f) \<longleftrightarrow>
            (\<exists>x \<in> set (benchmark_results nb'). ''algorithm'' \<in> fst ` set (store nb' x)))"
proof -
  have cols: "set (columns (DataFrame recs)) = (\<Union>x \<in> set (benchmark_results nb'). fst ` set (store nb' x))"
    by (simp add: DataFrame_columns recs_def)
  have hdr_set: "set (csv_header f) = insert '''' (set (columns (DataFrame recs)))"
    by (simp add: f_def to_csv_def)
  have column: "k \<in> set (csv_header f)"
    if "x \<in> set (benchmark_results nb')" and "map_of (store nb' x) k = Some w" for x k w
  proof -
    from that(2) have "k \<in> fst ` set (store nb' x)"
      by (metis map_of_SomeD image_eqI fst_conv)
    with that(1) show ?thesis
      unfolding hdr_set cols by blast
  qed
  have cell: "csv_cell f n k = Some (map_of (store nb' (benchmark_results nb' ! n)) k)"
    if "n < length (benchmark_results nb')" and "k \<in> set (csv_header f)" and "k \<noteq> ''''" for n k
  proof -
    from that(2,3) have k: "k \<in> set (columns (DataFrame recs))"
      unfolding hdr_set by simp
    from that(1) have n: "n < length (rows (DataFrame recs))"
      by (simp add: DataFrame_rows recs_def)
    from that(1) have "snd (rows (DataFrame recs) ! n) = store nb' (benchmark_results nb' ! n)"
      by (simp add: DataFrame_rows recs_def)
    with to_csv_cell [OF n k that(3)] show ?thesis
      by (simp add: f_def)
  qed
  have tagged: "{''algo'', ''dataset_name'', ''input_type''} \<subseteq> set (csv_header f) \<and>
      csv_cell f n ''algo'' = Some (Some (PStr a)) \<and>
      csv_cell f n ''dataset_name'' = Some (Some (PStr (dataset_name r))) \<and>
      csv_cell f n ''input_type'' = Some (Some (PStr (input_type r)))"
    if lo: "length (benchmark_results nb) \<le> n" and hi: "n < length (benchmark_results nb')" for n
  proof -
    let ?x = "benchmark_results nb' ! n"
    from hi have mem: "?x \<in> set (benchmark_results nb')"
      by simp
    have grown: "length (benchmark_results nb) < length (benchmark_results nb')"
      using lo hi by simp
    have "out = Inr ()"
    proof (cases out)
      case (Inl e)
      with exec have "benchmark_results nb' = benchmark_results nb"
        using execute_benchmark_raised [of abn a r v c kw nb nb' e] by simp
      with grown show ?thesis by simp
    next
      case (Inr u)
      then show ?thesis by simp
    qed
    with exec have "execute_benchmark abn a r v c kw nb = (nb', Inr ())"
      by simp
    then obtain p \<sigma>1 results where
      nb': "nb' = nb\<lparr>store := snd (enrich_all a r results \<sigma>1),
                    benchmark_results := benchmark_results nb @ results\<rparr>"
      by (rule execute_benchmark_returns)
    from lo hi have "?x \<in> set results"
      unfolding nb' by (simp add: nth_append)
    then have "has_tags a r (store nb' ?x)"
      unfolding nb' by (simp add: enrich_all_has_tags)
    then have t1: "map_of (store nb' ?x) ''algo'' = Some (PStr a)"
      and t2: "map_of (store nb' ?x) ''dataset_name'' = Some (PStr (dataset_name r))"
      and t3: "map_of (store nb' ?x) ''input_type'' = Some (PStr (input_type r))"
      unfolding has_tags_def by blast+
    from column [OF mem t1] column [OF mem t2] column [OF mem t3]
    have c1: "''algo'' \<in> set (csv_header f)" and c2: "''dataset_name'' \<in> set (csv_header f)"
      and c3: "''input_type'' \<in> set (csv_header f)" .
    from cell [OF hi c1] cell [OF hi c2] cell [OF hi c3] t1 t2 t3 c1 c2 c3 show ?thesis
      by simp
  qed
  have written: "cell_to_csv (cell_convert nb') =
      ((cell_convert nb')\<lparr>files := (files nb')(''benchmark_results.csv'' := Some f)\<rparr>, Inr ())"
    by (simp add: cell_to_csv_def cell_convert_def f_def recs_def)
  have hdr: "csv_header f = '''' # first_seen (concat (map (map fst) recs))"
    by (simp add: f_def to_csv_def DataFrame_def)
  have len: "length (csv_body f) = length (benchmark_results nb')"
    by (simp add: f_def to_csv_def DataFrame_rows recs_def)
  have named: "(''algorithm'' \<in> set (csv_header f)) =
      (\<exists>x \<in> set (benchmark_results nb'). ''algorithm'' \<in> fst ` set (store nb' x))"
    unfolding hdr_set cols by simp
  have f4: "\<forall>n. length (benchmark_results nb) \<le> n \<and> n < length (benchmark_results nb') \<longrightarrow>
            {''algo'', ''dataset_name'', ''input_type''} \<subseteq> set (csv_header f) \<and>
            csv_cell f n ''algo'' = Some (Some (PStr a)) \<and>
            csv_cell f n ''dataset_name'' = Some (Some (PStr (dataset_name r))) \<and>
            csv_cell f n ''input_type'' = Some (Some (PStr (input_type r)))"
    using tagged by blast
  have f5: "\<forall>x \<in> set (benchmark_results nb'). \<forall>k w. map_of (store nb' x) k = Some w \<longrightarrow>
            k \<in> set (csv_header f)"
    using column by blast
  have f6: "\<forall>n < length (benchmark_results nb'). \<forall>k \<in> set (csv_header f). k \<noteq> '''' \<longrightarrow>
            csv_cell f n k = Some (map_of (store nb' (benchmark_results nb' ! n)) k)"
    using cell by blast
  show ?thesis
    using written hdr len f4 f5 f6 named by (intro conjI) assumption+
qed

theorem csv_export_columns_witness:
  "execute_benchmark example_abn ''KMeans'' example_runner VERBOSE RUN_CPU [] example_notebook =
     (example_session, Inr ()) \<and>
   length (benchmark_results example_notebook) = 1 \<and>
   length (benchmark_results example_session) = 3 \<and>
   length (csv_body (to_csv session_frame)) = 3 \<and>
   map (\<lambda>n. csv_cell (to_csv session_frame) n ''algo'') [1, 2] =
     [Some (Some (PStr ''KMeans'')), Some (Some (PStr ''KMeans''))] \<and>
   map (\<lambda>n. csv_cell (to_csv session_frame) n ''dataset_name'') [1, 2] =
     [Some (Some (PStr ''blobs'')), Some (Some (PStr ''blobs''))] \<and>
   map (\<lambda>n. csv_cell (to_csv session_frame) n ''input_type'') [1, 2] =
     [Some (Some (PStr ''numpy'')), Some (Some (PStr ''numpy''))] \<and>
   ''algo'' \<in> set (csv_header (to_csv session_frame)) \<and>
   csv_cell (to_csv session_frame) 0 ''algo'' = Some (Some (PStr ''LinearRegression'')) \<and>
   csv_cell (to_csv session_frame) 2 ''speedup'' = Some (Some (PFloat 2)) \<and>
   ''algorithm'' \<notin> set (csv_header (to_csv session_frame))"
proof -
  note inst = csv_export_columns [OF example_execute, folded session_frame_def]
  have l0: "length (benchmark_results example_notebook) = 1"
    and l1: "length (benchmark_results example_session) = 3"
    by (simp_all add: example_notebook_simps example_session_results)
  from inst [THEN conjunct2, THEN conjunct2, THEN conjunct1]
  have len: "length (csv_body (to_csv session_frame)) = length (benchmark_results example_session)" .
  from inst [THEN conjunct2, THEN conjunct2, THEN conjunct2, THEN conjunct1]
  have tagged: "\<forall>n. length (benchmark_results example_notebook) \<le> n \<and>
        n < length (benchmark_results example_session) \<longrightarrow>
      {''algo'', ''dataset_name'', ''input_type''} \<subseteq> set (csv_header (to_csv session_frame)) \<and>
      csv_cell (to_csv session_frame) n ''algo'' = Some (Some (PStr ''KMeans'')) \<and>
      csv_cell (to_csv session_frame) n ''dataset_name'' = Some (Some (PStr (dataset_name example_runner))) \<and>
      csv_cell (to_csv session_frame) n ''input_type'' = Some (Some (PStr (input_type example_runner)))" .
  from tagged [rule_format, of "Suc 0"] tagged [rule_format, of 2]
  have tags: "map (\<lambda>n. csv_cell (to_csv session_frame) n ''algo'') [1, 2] =
       [Some (Some (PStr ''KMeans'')), Some (Some (PStr ''KMeans''))]"
    "map (\<lambda>n. csv_cell (to_csv session_frame) n ''dataset_name'') [1, 2] =
       [Some (Some (PStr ''blobs'')), Some (Some (PStr ''blobs''))]"
    "map (\<lambda>n. csv_cell (to_csv session_frame) n ''input_type'') [1, 2] =
       [Some (Some (PStr ''numpy'')), Some (Some (PStr ''numpy''))]"
    and algo: "''algo'' \<in> set (csv_header (to_csv session_frame))"
    by (simp_all add: l0 l1 example_tags)
  have speedup: "''speedup'' \<in> set (csv_header (to_csv session_frame))"
    by (simp add: session_frame_eq to_csv_def)
  from inst [THEN conjunct2, THEN conjunct2, THEN conjunct2, THEN conjunct2, THEN conjunct2, THEN conjunct1]
  have cell: "\<forall>n < length (benchmark_results example_session).
      \<forall>k \<in> set (csv_header (to_csv session_frame)). k \<noteq> '''' \<longrightarrow>
        csv_cell (to_csv session_frame) n k =
          Some (map_of (store example_session (benchmark_results example_session ! n)) k)" .
  from cell l1 algo have "csv_cell (to_csv session_frame) 0 ''algo'' =
      Some (map_of (store example_session (benchmark_results example_session ! 0)) ''algo'')"
    by simp
  then have c0: "csv_cell (to_csv session_frame) 0 ''algo'' = Some (Some (PStr ''LinearRegression''))"
    by (simp add: example_session_results example_session_store earlier_record_def)
  from cell l1 speedup have "csv_cell (to_csv session_frame) 2 ''speedup'' =
      Some (map_of (store example_session (benchmark_results example_session ! 2)) ''speedup'')"
    by simp
  then have c2: "csv_cell (to_csv session_frame) 2 ''speedup'' = Some (Some (PFloat 2))"
    by (simp add: example_session_results example_session_store record_256_def kmeans_tags_def)
  have none: "\<not> (\<exists>x \<in> set (benchmark_results example_session). ''algorithm'' \<in> fst ` set (store example_session x))"
    by (simp add: example_session_results example_session_store earlier_record_def record_32_def
        record_256_def kmeans_tags_def)
  with inst [THEN conjunct2, THEN conjunct2, THEN conjunct2, THEN conjunct2, THEN conjunct2, THEN conjunct2]
  have c3: "''algorithm'' \<notin> set (csv_header (to_csv session_frame))"
    by simp
  from example_execute l0 l1 len tags algo c0 c2 c3 show ?thesis
    by simp
qed

section \<open>The mean speedup per algorithm and row count\<close>




section \<open>The pivot of one algorithm's records\<close>

text \<open>
  Claim C6, as stated, has the pivot succeed for every record set, complete sweeps with
  more than one repetition included. Two k-means records of the same sweep point (16384
  rows, 32 features), one per repetition, are a complete sweep, and both are records of
  the algorithm asked for; the pivot raises \<^verbatim>\<open>ValueError\<close> on them.
\<close>

theorem chart_single_algo_speedup_repetitions:
  "complete_sweep (sweep_points ''KMeans'' repeated_frame) \<and>
   map (\<lambda>(m, r). map_of r ''algo'') (rows repeated_frame) =
     [Some (PStr ''KMeans''), Some (PStr ''KMeans'')] \<and>
   map (\<lambda>(m, r). (map_of r ''n_samples'', map_of r ''n_features'')) (rows repeated_frame) =
     [(Some (PInt 16384), Some (PInt 32)), (Some (PInt 16384), Some (PInt 32))] \<and>
   chart_single_algo_speedup example_plot repeated_frame ''KMeans'' = Inl ValueError"
proof -
  have "complete_sweep (sweep_points ''KMeans'' repeated_frame)"
    by (simp add: repeated_frame_points complete_sweep_def)
  moreover have "map (\<lambda>(m, r). map_of r ''algo'') (rows repeated_frame) =
     [Some (PStr ''KMeans''), Some (PStr ''KMeans'')]"
    by (simp add: repeated_frame_eq record_32_def second_repetition_def kmeans_tags_def)
  moreover have "map (\<lambda>(m, r). (map_of r ''n_samples'', map_of r ''n_features'')) (rows repeated_frame) =
     [(Some (PInt 16384), Some (PInt 32)), (Some (PInt 16384), Some (PInt 32))]"
    by (simp add: repeated_frame_eq record_32_def second_repetition_def kmeans_tags_def)
  moreover have "chart_single_algo_speedup example_plot repeated_frame ''KMeans'' = Inl ValueError"
    by (rule chart_single_duplicates) (simp_all add: repeated_frame_points, simp add: repeated_frame_eq)
  ultimately show ?thesis
    by simp
qed

text \<open>
  Claim C6, amended. On a frame with the columns \<^verbatim>\<open>algo\<close>, \<^verbatim>\<open>n_samples\<close>,
  \<^verbatim>\<open>n_features\<close> and \<^verbatim>\<open>speedup\<close>, \<^verbatim>\<open>chart_single_algo_speedup\<close> selects exactly the
  records of the given algorithm. When two of them share a (row count, feature count)
  pair, labels compared by value, it raises \<^verbatim>\<open>ValueError\<close>. When no two do, it builds
  a table and hands it to the plot, whose exception, if any, is the function's (pandas
  refuses to plot the empty table of an algorithm with no record). The row index of the table is
  the distinct row counts and its column index the distinct feature counts of those
  records; the cell at a record's row count and feature count is that record's speedup;
  for a complete sweep every cell is the speedup of a record of the sweep, so that no
  cell is missing when every record carries a speedup.
\<close>

theorem chart_single_algo_speedup_pivot:
  assumes cols: "{''algo'', ''n_samples'', ''n_features'', ''speedup''} \<subseteq> set (columns d)"
  shows "loc_eq ''algo'' (PStr a) d = Inr (d\<lparr>rows := algo_rows a d\<rparr>) \<and>
    (\<not> distinct (sweep_points a d) \<longrightarrow>
       chart_single_algo_speedup plot_bar d a = Inl ValueError) \<and>
    (distinct (sweep_points a d) \<longrightarrow>
      (\<exists>t. chart_single_algo_speedup plot_bar d a =
           (case plot_bar (BarPivot (a @ '' Speedup'') t) of
              Inl e \<Rightarrow> Inl e
            | Inr u \<Rightarrow> Inr (BarPivot (a @ '' Speedup'') t)) \<and>
         distinct (p_index t) \<and> set (p_index t) = set (map fst (sweep_points a d)) \<and>
         distinct (p_columns t) \<and> set (p_columns t) = set (map snd (sweep_points a d)) \<and>
         length (p_values t) = length (p_index t) \<and>
         (\<forall>row \<in> set (p_values t). length row = length (p_columns t)) \<and>
         (\<forall>(m, r) \<in> set (algo_rows a d). \<forall>i j.
            i < length (p_index t) \<and> j < length (p_columns t) \<and>
            p_index t ! i = label_of (map_of r ''n_samples'') \<and>
            p_columns t ! j = label_of (map_of r ''n_features'') \<longrightarrow>
            p_values t ! i ! j = map_of r ''speedup'') \<and>
         (complete_sweep (sweep_points a d) \<longrightarrow>
            (\<forall>i < length (p_index t). \<forall>j < length (p_columns t).
               \<exists>(m, r) \<in> set (algo_rows a d).
                  p_index t ! i = label_of (map_of r ''n_samples'') \<and>
                  p_columns t ! j = label_of (map_of r ''n_features'') \<and>
                  p_values t ! i ! j = map_of r ''speedup'')) \<and>
         (complete_sweep (sweep_points a d) \<and>
            (\<forall>(m, r) \<in> set (algo_rows a d). map_of r ''speedup'' \<noteq> None) \<longrightarrow>
            (\<forall>row \<in> set (p_values t). None \<notin> set row))))"
proof (intro conjI impI)
  from cols show "loc_eq ''algo'' (PStr a) d = Inr (d\<lparr>rows := algo_rows a d\<rparr>)"
    by (simp add: loc_eq_algo)
next
  assume "\<not> distinct (sweep_points a d)"
  with cols show "chart_single_algo_speedup plot_bar d a = Inl ValueError"
    by (rule chart_single_duplicates)
next
  assume dist: "distinct (sweep_points a d)"
  let ?rs = "algo_rows a d"
  let ?idx = "sort_by label_le (remdups (map fst (sweep_points a d)))"
  let ?cols = "sort_by label_le (remdups (map snd (sweep_points a d)))"
  let ?look = "lookup_cell ''n_samples'' ''n_features'' ''speedup'' ?rs"
  let ?t = "\<lparr>p_index = ?idx, p_columns = ?cols,
             p_values = map (\<lambda>ri. map (\<lambda>ci. ?look ri ci) ?cols) ?idx\<rparr>"
  have eq: "chart_single_algo_speedup plot_bar d a =
           (case plot_bar (BarPivot (a @ '' Speedup'') ?t) of
              Inl e \<Rightarrow> Inl e
            | Inr u \<Rightarrow> Inr (BarPivot (a @ '' Speedup'') ?t))"
    using cols dist by (rule chart_single_table) simp
  have keys: "distinct (pivot_keys ''n_samples'' ''n_features'' ?rs)"
    using dist by (simp add: pivot_keys_algo_rows)
  have found: "?look (label_of (map_of r ''n_samples'')) (label_of (map_of r ''n_features'')) =
      map_of r ''speedup''"
    if "(m, r) \<in> set ?rs" for m r
    using keys that by (rule lookup_cell_found)
  have own: "\<forall>(m, r) \<in> set ?rs. \<forall>i j.
            i < length (p_index ?t) \<and> j < length (p_columns ?t) \<and>
            p_index ?t ! i = label_of (map_of r ''n_samples'') \<and>
            p_columns ?t ! j = label_of (map_of r ''n_features'') \<longrightarrow>
            p_values ?t ! i ! j = map_of r ''speedup''"
  proof (intro ballI, clarify)
    fix m r i j
    assume mem: "(m, r) \<in> set ?rs"
      and i: "i < length (p_index ?t)" and j: "j < length (p_columns ?t)"
      and ri: "p_index ?t ! i = label_of (map_of r ''n_samples'')"
      and cj: "p_columns ?t ! j = label_of (map_of r ''n_features'')"
    from i j have "p_values ?t ! i ! j = ?look (?idx ! i) (?cols ! j)"
      by simp
    also from ri cj have "\<dots> = ?look (label_of (map_of r ''n_samples'')) (label_of (map_of r ''n_features''))"
      by simp
    also from mem have "\<dots> = map_of r ''speedup''"
      by (rule found)
    finally show "p_values ?t ! i ! j = map_of r ''speedup''" .
  qed
  have full: "\<exists>(m, r) \<in> set ?rs.
        p_index ?t ! i = label_of (map_of r ''n_samples'') \<and>
        p_columns ?t ! j = label_of (map_of r ''n_features'') \<and>
        p_values ?t ! i ! j = map_of r ''speedup''"
    if complete: "complete_sweep (sweep_points a d)"
      and i: "i < length (p_index ?t)" and j: "j < length (p_columns ?t)" for i j
  proof -
    from i have "?idx ! i \<in> set ?idx" by simp
    then have ri: "?idx ! i \<in> set (map fst (sweep_points a d))"
      by (simp add: set_sort_by)
    from j have "?cols ! j \<in> set ?cols" by simp
    then have cj: "?cols ! j \<in> set (map snd (sweep_points a d))"
      by (simp add: set_sort_by)
    from complete ri cj have "(?idx ! i, ?cols ! j) \<in> set (sweep_points a d)"
      unfolding complete_sweep_def by blast
    then obtain m r where mem: "(m, r) \<in> set ?rs"
      and pt: "(?idx ! i, ?cols ! j) =
        (label_of (map_of r ''n_samples''), label_of (map_of r ''n_features''))"
      unfolding sweep_points_def by auto
    from own mem i j pt have "p_values ?t ! i ! j = map_of r ''speedup''"
      by auto
    with mem pt show ?thesis
      by auto
  qed
  have nomissing: "\<forall>row \<in> set (p_values ?t). None \<notin> set row"
    if "complete_sweep (sweep_points a d) \<and> (\<forall>(m, r) \<in> set ?rs. map_of r ''speedup'' \<noteq> None)"
  proof (intro ballI notI)
    fix row
    assume row: "row \<in> set (p_values ?t)" and none: "None \<in> set row"
    from row obtain i where i: "i < length ?idx" and rowi: "row = p_values ?t ! i"
      by (auto simp add: in_set_conv_nth)
    from i rowi have len: "length row = length ?cols"
      by simp
    from none obtain j where j: "j < length row" and nj: "row ! j = None"
      by (auto simp add: in_set_conv_nth)
    from full [of i j] that i j len obtain m r where "(m, r) \<in> set ?rs"
      and "p_values ?t ! i ! j = map_of r ''speedup''"
      by auto
    with that rowi nj show False
      by auto
  qed
  show "\<exists>t. chart_single_algo_speedup plot_bar d a =
           (case plot_bar (BarPivot (a @ '' Speedup'') t) of
              Inl e \<Rightarrow> Inl e
            | Inr u \<Rightarrow> Inr (BarPivot (a @ '' Speedup'') t)) \<and>
         distinct (p_index t) \<and> set (p_index t) = set (map fst (sweep_points a d)) \<and>
         distinct (p_columns t) \<and> set (p_columns t) = set (map snd (sweep_points a d)) \<and>
         length (p_values t) = length (p_index t) \<and>
         (\<forall>row \<in> set (p_values t). length row = length (p_columns t)) \<and>
         (\<forall>(m, r) \<in> set (algo_rows a d). \<forall>i j.
            i < length (p_index t) \<and> j < length (p_columns t) \<and>
            p_index t ! i = label_of (map_of r ''n_samples'') \<and>
            p_columns t ! j = label_of (map_of r ''n_features'') \<longrightarrow>
            p_values t ! i ! j = map_of r ''speedup'') \<and>
         (complete_sweep (sweep_points a d) \<longrightarrow>
            (\<forall>i < length (p_index t). \<forall>j < length (p_columns t).
               \<exists>(m, r) \<in> set (algo_rows a d).
                  p_index t ! i = label_of (map_of r ''n_samples'') \<and>
                  p_columns t ! j = label_of (map_of r ''n_features'') \<and>
                  p_values t ! i ! j = map_of r ''speedup'')) \<and>
         (complete_sweep (sweep_points a d) \<and>
            (\<forall>(m, r) \<in> set (algo_rows a d). map_of r ''speedup'' \<noteq> None) \<longrightarrow>
            (\<forall>row \<in> set (p_values t). None \<notin> set row))"
  proof (intro exI [of _ ?t] conjI)
    show "chart_single_algo_speedup plot_bar d a =
           (case plot_bar (BarPivot (a @ '' Speedup'') ?t) of
              Inl e \<Rightarrow> Inl e
            | Inr u \<Rightarrow> Inr (BarPivot (a @ '' Speedup'') ?t))"
      by (rule eq)
    show "distinct (p_index ?t)" and "distinct (p_columns ?t)"
      by (simp_all add: distinct_sort_by)
    show "set (p_index ?t) = set (map fst (sweep_points a d))"
      and "set (p_columns ?t) = set (map snd (sweep_points a d))"
      by (simp_all add: set_sort_by)
    show "length (p_values ?t) = length (p_index ?t)"
      by simp
    show "\<forall>row \<in> set (p_values ?t). length row = length (p_columns ?t)"
      by auto
    show "\<forall>(m, r) \<in> set ?rs. \<forall>i j.
            i < length (p_index ?t) \<and> j < length (p_columns ?t) \<and>
            p_index ?t ! i = label_of (map_of r ''n_samples'') \<and>
            p_columns ?t ! j = label_of (map_of r ''n_features'') \<longrightarrow>
            p_values ?t ! i ! j = map_of r ''speedup''"
      by (rule own)
    show "complete_sweep (sweep_points a d) \<longrightarrow>
            (\<forall>i < length (p_index ?t). \<forall>j < length (p_columns ?t).
               \<exists>(m, r) \<in> set ?rs.
                  p_index ?t ! i = label_of (map_of r ''n_samples'') \<and>
                  p_columns ?t ! j = label_of (map_of r ''n_features'') \<and>
                  p_values ?t ! i ! j = map_of r ''speedup'')"
      using full by blast
    show "complete_sweep (sweep_points a d) \<and>
            (\<forall>(m, r) \<in> set ?rs. map_of r ''speedup'' \<noteq> None) \<longrightarrow>
            (\<forall>row \<in> set (p_values ?t). None \<notin> set row)"
      using nomissing by blast
  qed
qed

theorem chart_single_algo_speedup_pivot_witness:
  "{''algo'', ''n_samples'', ''n_features'', ''speedup''} \<subseteq> set (columns session_frame) \<and>
   distinct (sweep_points ''KMeans'' session_frame) \<and>
   complete_sweep (sweep_points ''KMeans'' session_frame) \<and>
   map (\<lambda>(m, r). map_of r ''speedup'') (algo_rows ''KMeans'' session_frame) =
     [Some (PFloat 4), Some (PFloat 2)] \<and>
   map_sum id rows (loc_eq ''algo'' (PStr ''KMeans'') session_frame) =
     Inr [(1, record_32 @ kmeans_tags), (2, record_256 @ kmeans_tags)] \<and>
   (\<exists>t. chart_single_algo_speedup example_plot session_frame ''KMeans'' =
          (case example_plot (BarPivot ''KMeans Speedup'' t) of
             Inl e \<Rightarrow> Inl e
           | Inr u \<Rightarrow> Inr (BarPivot ''KMeans Speedup'' t)) \<and>
        set (p_index t) = {LNum 16384} \<and>
        set (p_columns t) = {LNum 32, LNum 256} \<and>
        None \<notin> set (concat (p_values t))) \<and>
   chart_single_algo_speedup example_plot session_frame ''KMeans'' =
     Inr (BarPivot ''KMeans Speedup''
       \<lparr>p_index = [LNum 16384], p_columns = [LNum 32, LNum 256],
        p_values = [[Some (PFloat 4), Some (PFloat 2)]]\<rparr>) \<and>
   {''algo'', ''n_samples'', ''n_features'', ''speedup''} \<subseteq> set (columns repeated_frame) \<and>
   \<not> distinct (sweep_points ''KMeans'' repeated_frame) \<and>
   chart_single_algo_speedup example_plot repeated_frame ''KMeans'' = Inl ValueError"
proof -
  have cols: "{''algo'', ''n_samples'', ''n_features'', ''speedup''} \<subseteq> set (columns session_frame)"
    by (simp add: session_frame_eq)
  have dist: "distinct (sweep_points ''KMeans'' session_frame)"
    by (simp add: session_frame_points)
  have complete: "complete_sweep (sweep_points ''KMeans'' session_frame)"
    by (simp add: session_frame_points complete_sweep_def)
  have cells: "map (\<lambda>(m, r). map_of r ''speedup'') (algo_rows ''KMeans'' session_frame) =
     [Some (PFloat 4), Some (PFloat 2)]"
    by (simp add: session_frame_kmeans_rows record_32_def record_256_def kmeans_tags_def)
  then have present: "\<forall>(m, r) \<in> set (algo_rows ''KMeans'' session_frame). map_of r ''speedup'' \<noteq> None"
    by (simp add: session_frame_kmeans_rows record_32_def record_256_def kmeans_tags_def)
  from chart_single_algo_speedup_pivot [OF cols, of "''KMeans''" example_plot] dist complete present
  obtain t where t: "chart_single_algo_speedup example_plot session_frame ''KMeans'' =
          (case example_plot (BarPivot (''KMeans'' @ '' Speedup'') t) of
             Inl e \<Rightarrow> Inl e
           | Inr u \<Rightarrow> Inr (BarPivot (''KMeans'' @ '' Speedup'') t))"
    and idx: "set (p_index t) = set (map fst (sweep_points ''KMeans'' session_frame))"
    and cls: "set (p_columns t) = set (map snd (sweep_points ''KMeans'' session_frame))"
    and full: "\<forall>row \<in> set (p_values t). None \<notin> set row"
    by blast
  from full have nomissing: "None \<notin> set (concat (p_values t))"
    by auto
  from chart_single_algo_speedup_pivot [OF cols, of "''KMeans''" example_plot]
  have "loc_eq ''algo'' (PStr ''KMeans'') session_frame =
      Inr (session_frame\<lparr>rows := algo_rows ''KMeans'' session_frame\<rparr>)"
    by (rule conjunct1)
  then have selected: "map_sum id rows (loc_eq ''algo'' (PStr ''KMeans'') session_frame) =
      Inr [(1, record_32 @ kmeans_tags), (2, record_256 @ kmeans_tags)]"
    by (simp add: session_frame_kmeans_rows)
  from t idx cls nomissing
  have table: "\<exists>t. chart_single_algo_speedup example_plot session_frame ''KMeans'' =
          (case example_plot (BarPivot ''KMeans Speedup'' t) of
             Inl e \<Rightarrow> Inl e
           | Inr u \<Rightarrow> Inr (BarPivot ''KMeans Speedup'' t)) \<and>
        set (p_index t) = {LNum 16384} \<and>
        set (p_columns t) = {LNum 32, LNum 256} \<and>
        None \<notin> set (concat (p_values t))"
    by (intro exI [of _ t]) (simp add: session_frame_points)
  have drawn: "chart_single_algo_speedup example_plot session_frame ''KMeans'' =
     Inr (BarPivot ''KMeans Speedup''
       \<lparr>p_index = [LNum 16384], p_columns = [LNum 32, LNum 256],
        p_values = [[Some (PFloat 4), Some (PFloat 2)]]\<rparr>)"
    apply (simp add: chart_single_table [OF cols dist refl])
    apply (simp add: session_frame_points session_frame_kmeans_rows sort_by_def lookup_cell_def)
    apply (simp add: record_32_def record_256_def kmeans_tags_def)
    done
  have cols': "{''algo'', ''n_samples'', ''n_features'', ''speedup''} \<subseteq> set (columns repeated_frame)"
    by (simp add: repeated_frame_eq)
  have dup: "\<not> distinct (sweep_points ''KMeans'' repeated_frame)"
    by (simp add: repeated_frame_points)
  from chart_single_algo_speedup_pivot [OF cols', of "''KMeans''" example_plot] dup
  have err: "chart_single_algo_speedup example_plot repeated_frame ''KMeans'' = Inl ValueError"
    by blast
  from cols dist complete cells selected table drawn cols' dup err show ?thesis
    by (intro conjI) assumption+
qed

end
